theory Spec2Isabelle
  imports Complex_Main "HOL-Library.Sublist"
begin

section \<open>GDGAjuBot: resources, extraction, formatting and the deduplicating reply\<close>

text \<open>
  A shallow embedding of \<^verbatim>\<open>gdgajubot/gdgajubot.py\<close>. Conventions:
  \<^item> a Python \<^verbatim>\<open>str\<close> is a \<open>string\<close>; a \<open>char\<close> stands for one code point, so the
    embedding covers text whose code points are below 256 (all literals of the source are);
    e with an acute accent is \<open>CHR 0xE9\<close> and u with an acute accent is \<open>CHR 0xFA\<close>;
  \<^item> an exception is a value of \<open>error\<close>, and a function that can raise returns
    \<open>error + 'a\<close> with \<open>Inl\<close> for the exception;
  \<^item> a Python name that starts with an underscore loses it (\<^verbatim>\<open>_book_response\<close> is
    \<open>book_response\<close>), a name that is an Isabelle keyword gets a prefix.
\<close>

datatype error =
    AttributeError      \<comment> \<open>an attribute of \<^verbatim>\<open>None\<close> was read\<close>
  | KeyError            \<comment> \<open>a missing dictionary key or tag attribute\<close>
  | ValueError          \<comment> \<open>\<^verbatim>\<open>int()\<close> of a text that is no integer literal\<close>
  | DateRangeError      \<comment> \<open>\<^verbatim>\<open>fromtimestamp\<close> outside the years 1..9999\<close>
  | DecodeError         \<comment> \<open>\<^verbatim>\<open>bytes.decode\<close> failed\<close>
  | RequestError        \<comment> \<open>the HTTP request failed\<close>
  | TransportError      \<comment> \<open>the chat transport refused a send\<close>

subsection \<open>Text\<close>

text \<open>
  White space is what \<^verbatim>\<open>str.strip\<close> and the pattern \<^verbatim>\<open>\s\<close> of a \<^verbatim>\<open>str\<close> pattern take for
  it, among the code points below 256. (\<^verbatim>\<open>int\<close> has a white space of its own, below.)
\<close>

definition is_space :: "char \<Rightarrow> bool" where
  "is_space c =
     (c \<in> set [CHR 0x09, CHR 0x0A, CHR 0x0B, CHR 0x0C, CHR 0x0D, CHR 0x1C, CHR 0x1D,
               CHR 0x1E, CHR 0x1F, CHR 0x20, CHR 0x85, CHR 0xA0])"

definition is_digit :: "char \<Rightarrow> bool" where
  "is_digit c = (c \<in> set ''0123456789'')"

fun startswith :: "string \<Rightarrow> string \<Rightarrow> bool" where
  "startswith [] s = True"
| "startswith (x # xs) [] = False"
| "startswith (x # xs) (y # ys) = (x = y \<and> startswith xs ys)"

text \<open>\<^verbatim>\<open>l in s\<close>: the text \<open>l\<close> occurs in \<open>s\<close>.\<close>

fun occurs :: "string \<Rightarrow> string \<Rightarrow> bool" where
  "occurs l [] = startswith l []"
| "occurs l (c # cs) = (startswith l (c # cs) \<or> occurs l cs)"

definition strip :: "string \<Rightarrow> string" where
  "strip s = rev (dropWhile is_space (rev (dropWhile is_space s)))"

subsection \<open>Dates and times\<close>

text \<open>
  An aware \<^verbatim>\<open>datetime\<close> is the instant it denotes, in microseconds since the epoch (its
  resolution); a \<^verbatim>\<open>timedelta\<close> is a number of microseconds. \<^verbatim>\<open>util.AJU_TZ\<close> is not in
  the sources: it is a parameter \<open>tz\<close>, the zone's offset from UTC in seconds.
  \<^verbatim>\<open>datetime.fromtimestamp(t, tz)\<close> raises when the instant, in UTC or in the zone, is
  outside the years 1 to 9999 (a ValueError, OverflowError or OSError, by magnitude and
  platform: one \<open>DateRangeError\<close> here).
\<close>

type_synonym datetime = int
type_synonym timedelta = int

definition min_timestamp :: int where
  "min_timestamp = - 62135596800"

definition max_timestamp :: int where
  "max_timestamp = 253402300799"

definition in_range :: "int \<Rightarrow> bool" where
  "in_range s = (min_timestamp \<le> s \<and> s \<le> max_timestamp)"

definition fromtimestamp :: "int \<Rightarrow> int \<Rightarrow> error + datetime" where
  "fromtimestamp tz seconds =
     (if in_range seconds \<and> in_range (seconds + tz) then Inr (seconds * 1000000)
      else Inl DateRangeError)"

text \<open>
  \<^verbatim>\<open>timedelta.total_seconds()\<close> is the float nearest to microseconds / 10^6. Its
  comparison with the integer thresholds below is exact: a multiple of 10^-6 that differs
  from an integer up to 3600 is not rounded onto it. So the value is a rational here.
\<close>

definition total_seconds :: "timedelta \<Rightarrow> rat" where
  "total_seconds delta = of_int delta / 1000000"

subsection \<open>The book response (lines 140 to 158)\<close>

definition timeleft :: "(int \<times> string) list" where
  "timeleft =
     [(30, ''30 segundos''),
      (60, ''1 minuto''),
      (600, ''10 minutos''),
      (1800, ''meia hora''),
      (3600, ''1 hora'')]"

definition book_line :: "string \<Rightarrow> string" where
  "book_line book =
     ''O livro de hoje '' @ [CHR 0xE9] @ '': ['' @ book @
     ''](https://www.packtpub.com/packt/offers/free-learning)''"

definition warning :: "string \<Rightarrow> string" where
  "warning in_words = [CHR 0x0A, CHR 0x0A] @ ''Faltam menos de '' @ in_words @ ''!''"

text \<open>The \<^verbatim>\<open>for num, in_words in self.timeleft\<close> loop: the first tier that holds returns.\<close>

fun first_tier :: "(int \<times> string) list \<Rightarrow> rat \<Rightarrow> string \<Rightarrow> string" where
  "first_tier [] seconds response = response"
| "first_tier ((num, in_words) # tiers) seconds response =
     (if seconds \<le> of_int num then response @ warning in_words
      else first_tier tiers seconds response)"

text \<open>
  \<open>clock\<close> is what \<^verbatim>\<open>datetime.datetime.now(tz=util.AJU_TZ)\<close> returns, used when the
  caller passes no \<open>now\<close>.
\<close>

definition book_response ::
  "datetime \<Rightarrow> int \<Rightarrow> string \<Rightarrow> int \<Rightarrow> datetime option \<Rightarrow> error + string" where
  "book_response clock tz book expires now =
     (let now' = (case now of None \<Rightarrow> clock | Some n \<Rightarrow> n) in
      case fromtimestamp tz expires of
        Inl e \<Rightarrow> Inl e
      | Inr expiry \<Rightarrow>
          (let delta = expiry - now';
               seconds = total_seconds delta;
               response = book_line book
           in Inr (first_tier timeleft seconds response)))"

subsection \<open>The Beaker memory cache\<close>

text \<open>
  \<^verbatim>\<open>CacheManager\<close> with \<^verbatim>\<open>cache.type = memory\<close> keeps, per namespace and key, the stored
  object itself and the clock reading of the store. An entry made with \<^verbatim>\<open>expire=600\<close> is
  expired once \<^verbatim>\<open>time.time() >= expiretime + storedtime\<close>. \<^verbatim>\<open>get\<close> returns the value of
  an entry that is not expired; otherwise it calls \<^verbatim>\<open>createfunc\<close> once and stores the result
  under the current clock reading, and stores nothing when \<^verbatim>\<open>createfunc\<close> raises. The clock
  reading \<open>now\<close> is a parameter of every operation, constant during one call.
\<close>

record 'v entry =
  cached :: 'v
  storedtime :: real

definition expire :: real where
  "expire = 600"

definition is_expired :: "real \<Rightarrow> real \<Rightarrow> real \<Rightarrow> bool" where
  "is_expired stored expiretime now = (now \<ge> expiretime + stored)"

definition live :: "real \<Rightarrow> 'v entry option \<Rightarrow> 'v option" where
  "live now e =
     (case e of
        None \<Rightarrow> None
      | Some x \<Rightarrow> if is_expired (storedtime x) expire now then None else Some (cached x))"

subsection \<open>Events, requests, messages and the state of the process\<close>

text \<open>
  An event is the JSON object the Meetup API returns: \<open>name\<close> and \<open>link\<close> are strings,
  \<open>time\<close> is an integer of milliseconds, or the string \<^verbatim>\<open>_format_events\<close> has put in its
  place.
\<close>

datatype time_field = TInt int | TStr string

record event =
  name :: string
  link :: string
  time :: time_field

datatype param = PStr string | PInt int

record request =
  url :: string
  params :: "(string \<times> param) list"

text \<open>
  A response of \<^verbatim>\<open>requests.get\<close>: its bytes, its declared encoding, and what
  \<^verbatim>\<open>r.json()\<close> returns or raises.
\<close>

record response =
  resp_content :: string
  resp_encoding :: "string option"
  resp_json :: "error + event list"

text \<open>The web answers a request, given the requests made before it, or the request raises.\<close>

type_synonym web = "request list \<Rightarrow> request \<Rightarrow> error + response"

record chat =
  chat_id :: int
  chat_type :: string

record message =
  message_id :: int
  chat :: chat
  message_text :: string

type_synonym kwargs = "(string \<times> string) list"

text \<open>
  The two calls the bot makes to the transport: \<^verbatim>\<open>bot.reply_to(message, text, **kwargs)\<close>
  and \<^verbatim>\<open>bot.send_message(chat_id, text, reply_to_message_id=...)\<close>. The transport
  answers a call, given the calls made before it, with the id of the message it sent, or
  the call raises.
\<close>

datatype call =
    Reply_to message string kwargs
  | Send_message int string "int option"

type_synonym bot = "call list \<Rightarrow> call \<Rightarrow> error + int"

text \<open>
  The dictionary \<^verbatim>\<open>previous\<close> of \<^verbatim>\<open>_smart_reply\<close>: empty when \<^verbatim>\<open>dict()\<close> made it, with
  both keys after \<^verbatim>\<open>update\<close>.
\<close>

record previous =
  prev_text :: "string option"
  prev_message_id :: "int option"

definition empty_dict :: previous where
  "empty_dict = \<lparr>prev_text = None, prev_message_id = None\<rparr>"

text \<open>
  The state: the three caches of \<^verbatim>\<open>Resources.cache\<close> the program uses, and the logs of the
  requests made and of the calls to the transport. The cache of \<^verbatim>\<open>get_events\<close> is keyed by
  the positional arguments of the call (\<open>None\<close>: no argument, \<open>list_size\<close> at its default),
  that of \<^verbatim>\<open>get_packt_free_book\<close> has one key, and the reply caches, one namespace per key
  text, are keyed by the chat id.
\<close>

record state =
  events_cache :: "int option \<Rightarrow> event list entry option"
  book_cache :: "(string \<times> int) entry option"
  previous_cache :: "string \<times> int \<Rightarrow> previous entry option"
  requests :: "request list"
  calls :: "call list"

definition http_get :: "web \<Rightarrow> request \<Rightarrow> state \<Rightarrow> (error + response) \<times> state" where
  "http_get web r st = (web (requests st) r, st\<lparr>requests := requests st @ [r]\<rparr>)"

definition transport :: "bot \<Rightarrow> call \<Rightarrow> state \<Rightarrow> (error + int) \<times> state" where
  "transport b c st = (b (calls st) c, st\<lparr>calls := calls st @ [c]\<rparr>)"

subsection \<open>The deduplicating reply (lines 160 to 180)\<close>

text \<open>
  \<^verbatim>\<open>util.extract_command\<close> is not in the sources: it is the parameter \<open>extract_command\<close>,
  a function from a text to a command or \<^verbatim>\<open>None\<close>. \<^verbatim>\<open>"p%s" % c\<close> formats \<^verbatim>\<open>None\<close> as
  \<^verbatim>\<open>pNone\<close>.
\<close>

definition cache_key :: "(string \<Rightarrow> string option) \<Rightarrow> string \<Rightarrow> string" where
  "cache_key extract_command txt =
     ''p'' @ (case extract_command txt of None \<Rightarrow> ''None'' | Some c \<Rightarrow> c)"

text \<open>\<^verbatim>\<open>previous_cache.get(key=message.chat.id, createfunc=dict)\<close>\<close>

definition previous_get :: "real \<Rightarrow> string \<times> int \<Rightarrow> state \<Rightarrow> previous \<times> state" where
  "previous_get now k st =
     (case live now (previous_cache st k) of
        Some p \<Rightarrow> (p, st)
      | None \<Rightarrow>
          (empty_dict,
           st\<lparr>previous_cache :=
                (previous_cache st)(k \<mapsto> \<lparr>cached = empty_dict, storedtime = now\<rparr>)\<rparr>))"

definition pointer_text :: string where
  "pointer_text = ''Clique para ver a '' @ [CHR 0xFA] @ ''ltima resposta''"

text \<open>
  \<^verbatim>\<open>_smart_reply\<close>. In a group or supergroup, line 169 compares the text of the entry with
  the reply: when they are equal, line 170 sends the pointer (\<^verbatim>\<open>previous['message_id']\<close>
  raises KeyError if the key is missing); otherwise line 174 sends the reply, line 175
  puts its text and the id of the sent message in the dictionary and line 176 stores it,
  under the current clock reading. An exception of the transport ends the call where it
  is raised. In every other kind of chat line 180 sends the reply.
\<close>

definition smart_reply ::
  "(string \<Rightarrow> string option) \<Rightarrow> bot \<Rightarrow> real \<Rightarrow> message \<Rightarrow> string \<Rightarrow> kwargs \<Rightarrow> state
     \<Rightarrow> (error + unit) \<times> state" where
  "smart_reply extract_command b now msg txt kw st =
     (if chat_type (chat msg) \<in> {''group'', ''supergroup''} then
        (let key = cache_key extract_command txt;
             k = (key, chat_id (chat msg));
             (prev, st1) = previous_get now k st
         in if prev_text prev = Some txt then
              (case prev_message_id prev of
                 None \<Rightarrow> (Inl KeyError, st1)
               | Some mid \<Rightarrow>
                   (case transport b (Send_message (chat_id (chat msg)) pointer_text (Some mid)) st1 of
                      (Inl e, st2) \<Rightarrow> (Inl e, st2)
                    | (Inr _, st2) \<Rightarrow> (Inr (), st2)))
            else
              (case transport b (Reply_to msg txt kw) st1 of
                 (Inl e, st2) \<Rightarrow> (Inl e, st2)
               | (Inr sent, st2) \<Rightarrow>
                   (Inr (),
                    st2\<lparr>previous_cache :=
                          (previous_cache st2)
                            (k \<mapsto> \<lparr>cached = \<lparr>prev_text = Some txt, prev_message_id = Some sent\<rparr>,
                                   storedtime = now\<rparr>)\<rparr>)))
      else
        (case transport b (Reply_to msg txt kw) st of
           (Inl e, st2) \<Rightarrow> (Inl e, st2)
         | (Inr _, st2) \<Rightarrow> (Inr (), st2)))"

subsection \<open>Integer literals\<close>

text \<open>
  \<^verbatim>\<open>int(s)\<close> of a \<^verbatim>\<open>str\<close>, as CPython 3.11 and later read it in base 10. The white space
  dropped at both ends is narrower than that of \<^verbatim>\<open>str.strip\<close>: a code point below 127 counts
  by the C locale (tab to carriage return, and the space), one above by Unicode (among the
  code points below 256, U+0085 and U+00A0), so the separators U+001C to U+001F are no
  white space here and make the literal invalid. A sign may come first, directly before
  the digits, and the digits may be grouped by single underscores. A literal of more than
  \<open>max_str_digits\<close> digits (the default of \<^verbatim>\<open>sys.set_int_max_str_digits\<close>, which the source
  leaves as it is; sign and underscores are not counted) is refused. Every failure is a
  ValueError.
\<close>

definition is_int_space :: "char \<Rightarrow> bool" where
  "is_int_space c =
     (c \<in> set [CHR 0x09, CHR 0x0A, CHR 0x0B, CHR 0x0C, CHR 0x0D, CHR 0x20, CHR 0x85, CHR 0xA0])"

definition max_str_digits :: nat where
  "max_str_digits = 4300"

definition digit_value :: "char \<Rightarrow> int" where
  "digit_value c = int (length (takeWhile (\<lambda>d. d \<noteq> c) ''0123456789''))"

fun int_digits :: "int \<Rightarrow> string \<Rightarrow> int option" where
  "int_digits acc [] = Some acc"
| "int_digits acc [c] = (if is_digit c then Some (acc * 10 + digit_value c) else None)"
| "int_digits acc (c # d # cs) =
     (if is_digit c then int_digits (acc * 10 + digit_value c) (d # cs)
      else if c = CHR ''_'' \<and> is_digit d then int_digits acc (d # cs)
      else None)"

definition py_int :: "string \<Rightarrow> error + int" where
  "py_int s =
     (let t = rev (dropWhile is_int_space (rev (dropWhile is_int_space s)));
          negative = startswith ''-'' t;
          digits = (if startswith ''-'' t \<or> startswith ''+'' t then tl t else t)
      in case digits of
           [] \<Rightarrow> Inl ValueError
         | c # _ \<Rightarrow>
             if is_digit c \<and> length (filter is_digit digits) \<le> max_str_digits then
               (case int_digits 0 digits of
                  None \<Rightarrow> Inl ValueError
                | Some n \<Rightarrow> Inr (if negative then - n else n))
             else Inl ValueError)"

subsection \<open>The pattern \<^verbatim>\<open>book_re\<close> (lines 17 to 24)\<close>

text \<open>
  The pattern is a sequence of items: a literal text, one character of a class, a greedy
  repetition of a class (\<^verbatim>\<open>\s*\<close>, and \<^verbatim>\<open>[0-9]+\<close> as one digit and a repetition), the lazy
  \<^verbatim>\<open>.*?\<close> (with \<^verbatim>\<open>(?s)\<close> the dot matches every character), and the parentheses of a
  group. \<open>rmatch\<close> is the backtracking matcher of \<^verbatim>\<open>re\<close> for such a sequence: it matches at
  the start of its input and tries the alternatives in the order of \<^verbatim>\<open>re\<close> (a lazy item
  first without a further character, a greedy one first with it), so the first match it
  finds is the one \<^verbatim>\<open>re\<close> returns. A group is the text between the input left at its
  opening and at its closing.
\<close>

datatype item =
    Lit string
  | One "char \<Rightarrow> bool"
  | Many "char \<Rightarrow> bool"
  | Lazy
  | Open_group nat
  | Close_group nat

type_synonym groups = "nat \<Rightarrow> string option"

fun rmatch :: "item list \<Rightarrow> string \<Rightarrow> (nat \<Rightarrow> string) \<Rightarrow> groups \<Rightarrow> groups option" where
  "rmatch [] s opened g = Some g"
| "rmatch (Lit l # items) s opened g =
     (if startswith l s then rmatch items (drop (length l) s) opened g else None)"
| "rmatch (One p # items) [] opened g = None"
| "rmatch (One p # items) (c # cs) opened g =
     (if p c then rmatch items cs opened g else None)"
| "rmatch (Many p # items) [] opened g = rmatch items [] opened g"
| "rmatch (Many p # items) (c # cs) opened g =
     (if p c then
        (case rmatch (Many p # items) cs opened g of
           Some r \<Rightarrow> Some r
         | None \<Rightarrow> rmatch items (c # cs) opened g)
      else rmatch items (c # cs) opened g)"
| "rmatch (Lazy # items) [] opened g = rmatch items [] opened g"
| "rmatch (Lazy # items) (c # cs) opened g =
     (case rmatch items (c # cs) opened g of
        Some r \<Rightarrow> Some r
      | None \<Rightarrow> rmatch (Lazy # items) cs opened g)"
| "rmatch (Open_group n # items) s opened g = rmatch items s (opened(n := s)) g"
| "rmatch (Close_group n # items) s opened g =
     rmatch items s opened (g(n \<mapsto> take (length (opened n) - length s) (opened n)))"

text \<open>\<^verbatim>\<open>pattern.search\<close>: the first position of the text, from the left, where the pattern matches.\<close>

fun search :: "item list \<Rightarrow> string \<Rightarrow> groups option" where
  "search p [] = rmatch p [] (\<lambda>_. []) (\<lambda>_. None)"
| "search p (c # cs) =
     (case rmatch p (c # cs) (\<lambda>_. []) (\<lambda>_. None) of
        Some g \<Rightarrow> Some g
      | None \<Rightarrow> search p cs)"

definition tag_end :: "char \<Rightarrow> bool" where
  "tag_end c = (c = CHR '' '' \<or> c = CHR ''>'')"

definition book_re :: "item list" where
  "book_re =
     [Lit ''\"deal-of-the-day\"'', Lazy,
      Lit ''<div'', One tag_end, Lazy, Lit ''<div'', One tag_end, Lazy,
      Lit ''<div'', One tag_end, Lazy, Lit ''</div>'', Lazy, Lit ''<div'', One tag_end, Lazy,
      Lit ''<span class=\"packt-js-countdown\" data-countdown-to=\"'',
      Open_group 1, One is_digit, Many is_digit, Close_group 1,
      Lit ''\"></span>'', Lazy,
      Lit ''<h2'', One tag_end, Many is_space,
      Open_group 2, Lazy, Close_group 2, Many is_space, Lit ''</h2>'']"

subsection \<open>The extraction of the free book (lines 58 to 79)\<close>

text \<open>
  The content is a text, bytes, or a file whose \<^verbatim>\<open>read()\<close> returns one of them. The codec
  \<^verbatim>\<open>bytes.decode\<close> is a parameter \<open>decode\<close>, from the encoding the caller passes to a text or
  an error. BeautifulSoup is a parameter too, the record \<open>soup\<close> of what the function uses
  of it: the parser, \<^verbatim>\<open>select_one\<close> on a page or tag, the attributes of a tag and its text.
\<close>

datatype raw = Str string | Bytes string

datatype content = Plain raw | File raw

type_synonym decoder = "string option \<Rightarrow> string \<Rightarrow> error + string"

record 'tag soup =
  BeautifulSoup :: "string \<Rightarrow> 'tag"
  select_one :: "'tag \<Rightarrow> string \<Rightarrow> 'tag option"
  attrs :: "'tag \<Rightarrow> string \<Rightarrow> string option"
  tag_text :: "'tag \<Rightarrow> string"

text \<open>
  The \<^verbatim>\<open>try\<close> block: \<open>None\<close> when it raises (\<^verbatim>\<open>m\<close> is \<^verbatim>\<open>None\<close>, or \<^verbatim>\<open>int\<close> fails), which the
  \<^verbatim>\<open>except\<close> clause logs and passes over.
\<close>

definition regex_strategy :: "string \<Rightarrow> (string \<times> int) option" where
  "regex_strategy doc =
     (case search book_re doc of
        None \<Rightarrow> None
      | Some m \<Rightarrow>
          (case (m 2, m 1) of
             (Some book, Some expires) \<Rightarrow>
               (case py_int expires of Inl e \<Rightarrow> None | Inr n \<Rightarrow> Some (book, n))
           | _ \<Rightarrow> None))"

text \<open>The fallback, lines 75 to 79, with the exceptions in the order the lines raise them.\<close>

definition html_strategy :: "'tag soup \<Rightarrow> string \<Rightarrow> error + string \<times> int" where
  "html_strategy soup doc =
     (let page = BeautifulSoup soup doc in
      case select_one soup page ''#deal-of-the-day'' of
        None \<Rightarrow> Inl AttributeError
      | Some dealoftheday \<Rightarrow>
          (let book = select_one soup dealoftheday
                        ''div div div:nth-of-type(2) div:nth-of-type(2) h2'' in
           case select_one soup dealoftheday ''span.packt-js-countdown'' of
             None \<Rightarrow> Inl AttributeError
           | Some countdown \<Rightarrow>
               (case attrs soup countdown ''data-countdown-to'' of
                  None \<Rightarrow> Inl KeyError
                | Some expires \<Rightarrow>
                    (case book of
                       None \<Rightarrow> Inl AttributeError
                     | Some h2 \<Rightarrow>
                         (case py_int expires of
                            Inl e \<Rightarrow> Inl e
                          | Inr n \<Rightarrow> Inr (strip (tag_text soup h2), n))))))"

text \<open>Lines 60 to 63: a file is read, and bytes are decoded.\<close>

definition to_str :: "decoder \<Rightarrow> content \<Rightarrow> string option \<Rightarrow> error + string" where
  "to_str decode content encoding =
     (case (case content of File r \<Rightarrow> r | Plain r \<Rightarrow> r) of
        Bytes b \<Rightarrow> decode encoding b
      | Str s \<Rightarrow> Inr s)"

definition extract_packt_free_book ::
  "'tag soup \<Rightarrow> decoder \<Rightarrow> content \<Rightarrow> string option \<Rightarrow> error + string \<times> int" where
  "extract_packt_free_book soup decode content encoding =
     (case to_str decode content encoding of
        Inl e \<Rightarrow> Inl e
      | Inr doc \<Rightarrow>
          (case regex_strategy doc of
             Some result \<Rightarrow> Inr result
           | None \<Rightarrow> html_strategy soup doc))"

subsection \<open>The resources (lines 27 to 56)\<close>

record config =
  telegram_token :: string
  meetup_key :: string
  group_name :: string

text \<open>The request of \<^verbatim>\<open>generate_events\<close>: the URL and the parameters of lines 41 to 49.\<close>

definition events_request :: "config \<Rightarrow> int \<Rightarrow> request" where
  "events_request cfg n =
     \<lparr>url = ''https://api.meetup.com/'' @ group_name cfg @ ''/events'',
      params = [(''key'', PStr (meetup_key cfg)),
                (''status'', PStr ''upcoming''),
                (''only'', PStr ''name,time,link''),
                (''page'', PInt n)]\<rparr>"

definition generate_events ::
  "web \<Rightarrow> config \<Rightarrow> int \<Rightarrow> state \<Rightarrow> (error + event list) \<times> state" where
  "generate_events web cfg n st =
     (case http_get web (events_request cfg n) st of
        (Inl e, st') \<Rightarrow> (Inl e, st')
      | (Inr resp, st') \<Rightarrow> (resp_json resp, st'))"

definition list_size_of :: "int option \<Rightarrow> int" where
  "list_size_of arg = (case arg of None \<Rightarrow> 5 | Some n \<Rightarrow> n)"

text \<open>
  \<^verbatim>\<open>@cache.cache('get_events', expire=600)\<close>: the key is made of the positional arguments
  after \<open>self\<close>, so a call without argument (\<open>None\<close> here; \<open>list_size\<close> is then its default,
  5) has another key than a call with the argument 5.
\<close>

definition get_events ::
  "web \<Rightarrow> config \<Rightarrow> real \<Rightarrow> int option \<Rightarrow> state \<Rightarrow> (error + event list) \<times> state" where
  "get_events web cfg now list_size st =
     (case live now (events_cache st list_size) of
        Some v \<Rightarrow> (Inr v, st)
      | None \<Rightarrow>
          (case generate_events web cfg (list_size_of list_size) st of
             (Inl e, st') \<Rightarrow> (Inl e, st')
           | (Inr v, st') \<Rightarrow>
               (Inr v,
                st'\<lparr>events_cache :=
                      (events_cache st')(list_size \<mapsto> \<lparr>cached = v, storedtime = now\<rparr>)\<rparr>)))"

definition free_learning :: request where
  "free_learning = \<lparr>url = ''https://www.packtpub.com/packt/offers/free-learning'', params = []\<rparr>"

definition get_packt_free_book ::
  "'tag soup \<Rightarrow> decoder \<Rightarrow> web \<Rightarrow> real \<Rightarrow> state \<Rightarrow> (error + string \<times> int) \<times> state" where
  "get_packt_free_book soup decode web now st =
     (case live now (book_cache st) of
        Some v \<Rightarrow> (Inr v, st)
      | None \<Rightarrow>
          (case http_get web free_learning st of
             (Inl e, st') \<Rightarrow> (Inl e, st')
           | (Inr r, st') \<Rightarrow>
               (case extract_packt_free_book soup decode (Plain (Bytes (resp_content r)))
                       (resp_encoding r) of
                  Inl e \<Rightarrow> (Inl e, st')
                | Inr v \<Rightarrow>
                    (Inr v, st'\<lparr>book_cache := Some \<lparr>cached = v, storedtime = now\<rparr>\<rparr>))))"

subsection \<open>The list of events (lines 105 to 130)\<close>

text \<open>
  The calendar date of a day, counted from 1970-01-01, in the proleptic Gregorian calendar
  of \<^verbatim>\<open>datetime\<close>: year, month, day.
\<close>

definition civil_from_days :: "int \<Rightarrow> int \<times> int \<times> int" where
  "civil_from_days days =
     (let z = days + 719468;
          era = z div 146097;
          doe = z - era * 146097;
          yoe = (doe - doe div 1460 + doe div 36524 - doe div 146096) div 365;
          doy = doe - (365 * yoe + yoe div 4 - yoe div 100);
          mp = (5 * doy + 2) div 153;
          d = doy - (153 * mp + 2) div 5 + 1;
          m = (if mp < 10 then mp + 3 else mp - 9);
          y = yoe + era * 400 + (if m \<le> 2 then 1 else 0)
      in (y, m, d))"

definition two_digits :: "int \<Rightarrow> string" where
  "two_digits n = [''0123456789'' ! nat (n div 10 mod 10), ''0123456789'' ! nat (n mod 10)]"

text \<open>\<^verbatim>\<open>event_dt.strftime('%d/%m %H:%M')\<close>, for a datetime in the zone of offset \<open>tz\<close>.\<close>

definition strftime :: "int \<Rightarrow> datetime \<Rightarrow> string" where
  "strftime tz dt =
     (let local_seconds = dt div 1000000 + tz;
          (y, m, d) = civil_from_days (local_seconds div 86400);
          second_of_day = local_seconds mod 86400
      in two_digits d @ ''/'' @ two_digits m @ '' '' @
         two_digits (second_of_day div 3600) @ '':'' @
         two_digits (second_of_day mod 3600 div 60))"

text \<open>
  Lines 124 to 127. \<^verbatim>\<open>event['time'] / 1000\<close> is a float of seconds; the datetime made from
  it lies in the whole second \<open>ms div 1000\<close> (the float is off by less than a millisecond and
  exact when the quotient is whole), and only its minute is printed.
\<close>

definition format_time :: "int \<Rightarrow> int \<Rightarrow> error + string" where
  "format_time tz ms =
     (case fromtimestamp tz (ms div 1000) of
        Inl e \<Rightarrow> Inl e
      | Inr event_dt \<Rightarrow> Inr (strftime tz event_dt))"

text \<open>\<^verbatim>\<open>"[%(name)s](%(link)s): %(time)s" % event\<close>, for an event whose time is a string.\<close>

definition event_line :: "string \<Rightarrow> string \<Rightarrow> string \<Rightarrow> string" where
  "event_line n l t = ''['' @ n @ '']('' @ l @ ''): '' @ t"

text \<open>
  The body of the loop: the line of the event, and the event as the body leaves it (the
  assignment of line 127 changes the dictionary the list holds).
\<close>

definition format_event :: "int \<Rightarrow> event \<Rightarrow> error + string \<times> event" where
  "format_event tz ev =
     (case time ev of
        TInt ms \<Rightarrow>
          (case format_time tz ms of
             Inl e \<Rightarrow> Inl e
           | Inr s \<Rightarrow> Inr (event_line (name ev) (link ev) s, ev\<lparr>time := TStr s\<rparr>))
      | TStr s \<Rightarrow> Inr (event_line (name ev) (link ev) s, ev))"

text \<open>
  The loop returns the lines, or the error that ended it, and the list of events as it
  leaves it: an error leaves the events before it changed.
\<close>

fun format_loop :: "int \<Rightarrow> event list \<Rightarrow> string list \<Rightarrow> (error + string list) \<times> event list" where
  "format_loop tz [] response = (Inr response, [])"
| "format_loop tz (ev # events) response =
     (case format_event tz ev of
        Inl e \<Rightarrow> (Inl e, ev # events)
      | Inr (l, ev') \<Rightarrow>
          (case format_loop tz events (response @ [l]) of
             (r, events') \<Rightarrow> (r, ev' # events')))"

fun join :: "string \<Rightarrow> string list \<Rightarrow> string" where
  "join sep [] = []"
| "join sep [x] = x"
| "join sep (x # y # ys) = x @ sep @ join sep (y # ys)"

definition format_events :: "int \<Rightarrow> event list \<Rightarrow> (error + string) \<times> event list" where
  "format_events tz events =
     (case format_loop tz events [] of
        (Inl e, events') \<Rightarrow> (Inl e, events')
      | (Inr response, events') \<Rightarrow> (Inr (join [CHR 0x0A] response), events'))"

text \<open>
  Lines 110 and 111 of \<^verbatim>\<open>list_upcoming_events\<close>. The memory cache holds the very list
  \<^verbatim>\<open>get_events\<close> returns, so what \<^verbatim>\<open>_format_events\<close> does to the events is done to the
  cached value: the entry gets the list as the loop leaves it, under its old time.
\<close>

definition events_response ::
  "web \<Rightarrow> config \<Rightarrow> int \<Rightarrow> real \<Rightarrow> state \<Rightarrow> (error + string) \<times> state" where
  "events_response web cfg tz now st =
     (case get_events web cfg now (Some 5) st of
        (Inl e, st1) \<Rightarrow> (Inl e, st1)
      | (Inr next_events, st1) \<Rightarrow>
          (case format_events tz next_events of
             (r, events') \<Rightarrow>
               (r, st1\<lparr>events_cache := (events_cache st1)
                        (Some 5 := map_option (\<lambda>x. x\<lparr>cached := events'\<rparr>)
                                     (events_cache st1 (Some 5)))\<rparr>)))"

definition markdown :: kwargs where
  "markdown = [(''parse_mode'', ''Markdown''), (''disable_web_page_preview'', ''True'')]"

text \<open>The handler: an exception is logged and ends the call.\<close>

definition list_upcoming_events ::
  "(string \<Rightarrow> string option) \<Rightarrow> bot \<Rightarrow> web \<Rightarrow> config \<Rightarrow> int \<Rightarrow> real \<Rightarrow> message \<Rightarrow> state
     \<Rightarrow> state" where
  "list_upcoming_events extract_command b web cfg tz now msg st =
     (case events_response web cfg tz now st of
        (Inl e, st1) \<Rightarrow> st1
      | (Inr response, st1) \<Rightarrow> snd (smart_reply extract_command b now msg response markdown st1))"

subsection \<open>Vocabulary of the properties of the deduplicating reply\<close>

text \<open>
  The conversation is multi-party; the cache key of a reply in its conversation; the entry
  under a key is live and holds the text; and the record the deduplicator keeps at a time:
  text, message id and time of the store of a live entry that holds both.
\<close>

definition in_group :: "message \<Rightarrow> bool" where
  "in_group msg = (chat_type (chat msg) \<in> {''group'', ''supergroup''})"

definition record_key :: "(string \<Rightarrow> string option) \<Rightarrow> message \<Rightarrow> string \<Rightarrow> string \<times> int" where
  "record_key extract_command msg txt = (cache_key extract_command txt, chat_id (chat msg))"

definition has_text :: "real \<Rightarrow> previous entry option \<Rightarrow> string \<Rightarrow> bool" where
  "has_text now e txt =
     (case live now e of None \<Rightarrow> False | Some p \<Rightarrow> prev_text p = Some txt)"

definition dedup_record ::
  "real \<Rightarrow> previous entry option \<Rightarrow> (string \<times> int \<times> real) option" where
  "dedup_record now e =
     (case e of
        None \<Rightarrow> None
      | Some x \<Rightarrow>
          if is_expired (storedtime x) expire now then None
          else (case (prev_text (cached x), prev_message_id (cached x)) of
                  (Some t, Some i) \<Rightarrow> Some (t, i, storedtime x)
                | _ \<Rightarrow> None))"

subsection \<open>Vocabulary of the properties of the list of events\<close>

text \<open>
  An event and what the loop makes of it: an integer time has become the string
  \<^verbatim>\<open>_format_events\<close> renders it to, and nothing else has changed.
\<close>

definition rendered :: "int \<Rightarrow> event \<Rightarrow> event \<Rightarrow> bool" where
  "rendered tz ev ev' =
     (case time ev of
        TInt ms \<Rightarrow>
          (case format_time tz ms of Inl e \<Rightarrow> False | Inr s \<Rightarrow> ev' = ev\<lparr>time := TStr s\<rparr>)
      | TStr s \<Rightarrow> ev' = ev)"

subsection \<open>Vocabulary of the properties of the extraction\<close>

text \<open>
  The number a text of decimal digits denotes, and the documents that hold the widget the
  way the pattern expects it: the countdown with its two attributes in the order of the
  pattern, and a heading with any text between its tags.
\<close>

definition decimal :: "string \<Rightarrow> int" where
  "decimal ds = foldl (\<lambda>n c. n * 10 + digit_value c) 0 ds"

definition widget_doc :: "string \<Rightarrow> string \<Rightarrow> string" where
  "widget_doc countdown heading =
     ''<div id=\"deal-of-the-day\"><div><div><div class=\"img\"></div><div class=\"main\">'' @
     ''<div><span class=\"packt-js-countdown\" data-countdown-to=\"'' @ countdown @
     ''\"></span></div><div><h2>'' @ heading @ ''</h2></div></div></div></div></div>''"

subsection \<open>Inputs of the examples\<close>

text \<open>
  The state of a process that has just started; a transport that accepts every call and
  numbers the messages it sends; one that refuses its first call; messages of a group and
  of a private conversation.
\<close>

definition init :: state where
  "init = \<lparr>events_cache = (\<lambda>_. None), book_cache = None, previous_cache = (\<lambda>_. None),
            requests = [], calls = []\<rparr>"

definition numbering_bot :: bot where
  "numbering_bot h c = Inr (1000 + int (length h))"

definition failing_once_bot :: bot where
  "failing_once_bot h c = (if h = [] then Inl TransportError else Inr (1000 + int (length h)))"

definition group_msg :: "int \<Rightarrow> string \<Rightarrow> message" where
  "group_msg i t =
     \<lparr>message_id = i, chat = \<lparr>chat_id = 42, chat_type = ''group''\<rparr>, message_text = t\<rparr>"

definition private_msg :: "int \<Rightarrow> string \<Rightarrow> message" where
  "private_msg i t =
     \<lparr>message_id = i, chat = \<lparr>chat_id = 7, chat_type = ''private''\<rparr>, message_text = t\<rparr>"

text \<open>
  Modelled from the spec: \<^verbatim>\<open>util.extract_command\<close>, which is not in the sources. The spec
  calls its result the leading command token of a text; \<^verbatim>\<open>handle_messages\<close> dispatches on it
  when it is not \<^verbatim>\<open>None\<close> and looks for the easter eggs otherwise. Here a text that starts
  with a slash has the command up to the first white space or \<^verbatim>\<open>@\<close>, and any other text
  has none. It instantiates the parameter \<open>extract_command\<close> in the examples only.
\<close>

definition extract_command :: "string \<Rightarrow> string option" where
  "extract_command t =
     (if startswith ''/'' t then Some (takeWhile (\<lambda>c. \<not> is_space c \<and> c \<noteq> CHR ''@'') t)
      else None)"

text \<open>
  Three documents: one with the widget as the pattern expects it, one with the attributes
  of the countdown in the other order, which the pattern does not match, and one without
  the widget. A codec that takes UTF-8 bytes below 128 for the text they are, and a soup
  over numbered tags, which finds the widget in the first two documents: tag 2 is the
  container, 3 the heading and 4 the countdown.
\<close>

definition example_doc :: string where
  "example_doc =
     ''<div id=\"deal-of-the-day\"><div><div><div class=\"img\"></div><div class=\"main\">'' @
     ''<div><span class=\"packt-js-countdown\" data-countdown-to=\"1700000000\"></span></div>'' @
     ''<div><h2> Example Book </h2></div></div></div></div></div>''"

definition fallback_doc :: string where
  "fallback_doc =
     ''<div id=\"deal-of-the-day\"><div><div><div class=\"img\"></div><div class=\"main\">'' @
     ''<div><span data-countdown-to=\"1700000000\" class=\"packt-js-countdown\"></span></div>'' @
     ''<div><h2> Example Book </h2></div></div></div></div></div>''"

definition no_offer_doc :: string where
  "no_offer_doc = ''<html><body><p>No offer today</p></body></html>''"

definition ascii :: decoder where
  "ascii encoding b =
     (if encoding = Some ''utf-8'' \<and> (\<forall>c \<in> set b. of_char c < (128 :: nat)) then Inr b
      else Inl DecodeError)"

definition example_soup :: "nat soup" where
  "example_soup =
     \<lparr>BeautifulSoup = (\<lambda>doc. if doc = example_doc \<or> doc = fallback_doc then 1 else 0),
      select_one = (\<lambda>t sel.
         if t = 1 \<and> sel = ''#deal-of-the-day'' then Some 2
         else if t = 2 \<and> sel = ''div div div:nth-of-type(2) div:nth-of-type(2) h2'' then Some 3
         else if t = 2 \<and> sel = ''span.packt-js-countdown'' then Some 4
         else None),
      attrs = (\<lambda>t a.
         if t = 4 \<and> a = ''data-countdown-to'' then Some ''1700000000''
         else if t = 4 \<and> a = ''class'' then Some ''packt-js-countdown''
         else None),
      tag_text = (\<lambda>t. if t = 3 then '' Example Book '' else [])\<rparr>"

text \<open>
  Two events as the API returns them, a configuration, and a web that answers every request
  with the first document and these events.
\<close>

definition example_events :: "event list" where
  "example_events =
     [\<lparr>name = ''Meetup'', link = ''http://meetup.com/e/1'', time = TInt 1700000000000\<rparr>,
      \<lparr>name = ''Devfest'', link = ''http://meetup.com/e/2'', time = TInt 1709164800000\<rparr>]"

definition example_config :: config where
  "example_config = \<lparr>telegram_token = ''t'', meetup_key = ''k'', group_name = ''GDG-Aracaju''\<rparr>"

definition example_web :: web where
  "example_web h r =
     Inr \<lparr>resp_content = example_doc, resp_encoding = Some ''utf-8'',
          resp_json = Inr example_events\<rparr>"

section \<open>Properties\<close>

subsection \<open>The tier of the book response\<close>

lemma first_tier_45:
  "first_tier timeleft 45 r = r @ warning ''1 minuto''"
  by (simp add: timeleft_def)

lemma first_tier_negative:
  "s < 0 \<Longrightarrow> first_tier timeleft s r = r @ warning ''30 segundos''"
  by (simp add: timeleft_def)

text \<open>
  C1, as stated, fails: at 45 seconds before the expiry the loop passes the tier of 30
  (45 is above it) and returns at the tier of 60, so the warning says "1 minuto" and not
  "30 segundos". Here the offer expires at 1700000000 and \<open>now\<close> is 45 seconds earlier.
\<close>

theorem C1_counterexample:
  "book_response 0 (- 10800) ''Example Book'' 1700000000 (Some 1699999955000000)
     = Inr (book_line ''Example Book'' @ warning ''1 minuto'')
   \<and> book_response 0 (- 10800) ''Example Book'' 1700000000 (Some 1699999955000000)
     \<noteq> Inr (book_line ''Example Book'' @ warning ''30 segundos'')"
  by (simp add: book_response_def fromtimestamp_def in_range_def min_timestamp_def
      max_timestamp_def total_seconds_def timeleft_def warning_def)

text \<open>
  C1, amended: for an offer whose expiry is a valid timestamp, when 45 seconds remain the
  response carries the warning of the tier "1 minuto" (60 is the smallest threshold that is
  at least 45), and when the offer has expired (the remaining seconds are negative) it
  carries the warning of the smallest tier, "30 segundos".
\<close>

theorem C1_book_response_tier:
  assumes "fromtimestamp tz expires = Inr expiry"
  shows "(total_seconds (expiry - now) = 45 \<longrightarrow>
            book_response clock tz book expires (Some now)
              = Inr (book_line book @ warning ''1 minuto''))
       \<and> (total_seconds (expiry - now) < 0 \<longrightarrow>
            book_response clock tz book expires (Some now)
              = Inr (book_line book @ warning ''30 segundos''))"
  using assms by (simp add: book_response_def first_tier_45 first_tier_negative)

theorem C1_book_response_tier_witness:
  "fromtimestamp (- 10800) 1700000000 = Inr 1700000000000000
   \<and> total_seconds (1700000000000000 - 1699999955000000) = 45
   \<and> book_response 0 (- 10800) ''Example Book'' 1700000000 (Some 1699999955000000)
       = Inr (book_line ''Example Book'' @ warning ''1 minuto'')
   \<and> total_seconds (1700000000000000 - 1700000001000000) < 0
   \<and> book_response 0 (- 10800) ''Example Book'' 1700000000 (Some 1700000001000000)
       = Inr (book_line ''Example Book'' @ warning ''30 segundos'')"
proof -
  have valid: "fromtimestamp (- 10800) 1700000000 = Inr 1700000000000000"
    by (simp add: fromtimestamp_def in_range_def min_timestamp_def max_timestamp_def)
  have a: "total_seconds (1700000000000000 - 1699999955000000) = 45"
    by (simp add: total_seconds_def)
  have b: "total_seconds (1700000000000000 - 1700000001000000) < 0"
    by (simp add: total_seconds_def)
  from C1_book_response_tier [OF valid, of 1699999955000000 0 "''Example Book''"] a
  have c: "book_response 0 (- 10800) ''Example Book'' 1700000000 (Some 1699999955000000)
       = Inr (book_line ''Example Book'' @ warning ''1 minuto'')"
    by blast
  from C1_book_response_tier [OF valid, of 1700000001000000 0 "''Example Book''"] b
  have d: "book_response 0 (- 10800) ''Example Book'' 1700000000 (Some 1700000001000000)
       = Inr (book_line ''Example Book'' @ warning ''30 segundos'')"
    by blast
  from valid a b c d show ?thesis by blast
qed

subsection \<open>The deduplicating reply\<close>

lemma smart_reply_private:
  "\<not> in_group msg \<Longrightarrow>
   smart_reply ec b now msg txt kw st =
     (case b (calls st) (Reply_to msg txt kw) of Inl e \<Rightarrow> Inl e | Inr _ \<Rightarrow> Inr (),
      st\<lparr>calls := calls st @ [Reply_to msg txt kw]\<rparr>)"
  by (simp add: smart_reply_def in_group_def transport_def split: sum.splits)

lemma smart_reply_new:
  assumes "in_group msg" and "\<not> has_text now (previous_cache st (record_key ec msg txt)) txt"
  shows "smart_reply ec b now msg txt kw st =
     (let st1 = snd (previous_get now (record_key ec msg txt) st) in
      case b (calls st) (Reply_to msg txt kw) of
        Inl e \<Rightarrow> (Inl e, st1\<lparr>calls := calls st @ [Reply_to msg txt kw]\<rparr>)
      | Inr sent \<Rightarrow>
          (Inr (), st1\<lparr>calls := calls st @ [Reply_to msg txt kw],
                previous_cache := (previous_cache st1)
                  (record_key ec msg txt \<mapsto>
                     \<lparr>cached = \<lparr>prev_text = Some txt, prev_message_id = Some sent\<rparr>,
                      storedtime = now\<rparr>)\<rparr>))"
  using assms
  by (auto simp add: smart_reply_def in_group_def transport_def record_key_def has_text_def
      previous_get_def empty_dict_def Let_def split: sum.splits option.splits)

lemma smart_reply_duplicate:
  assumes "in_group msg"
    and "live now (previous_cache st (record_key ec msg txt)) = Some p"
    and "prev_text p = Some txt" and "prev_message_id p = Some mid"
  shows "smart_reply ec b now msg txt kw st =
     (case b (calls st) (Send_message (chat_id (chat msg)) pointer_text (Some mid)) of
        Inl e \<Rightarrow> Inl e | Inr _ \<Rightarrow> Inr (),
      st\<lparr>calls := calls st @ [Send_message (chat_id (chat msg)) pointer_text (Some mid)]\<rparr>)"
  using assms
  by (auto simp add: smart_reply_def in_group_def transport_def record_key_def
      previous_get_def Let_def split: sum.splits option.splits)

lemma smart_reply_sent:
  assumes "in_group msg" and "\<not> has_text now (previous_cache st (record_key ec msg txt)) txt"
    and "b (calls st) (Reply_to msg txt kw) = Inr sent"
    and "smart_reply ec b now msg txt kw st = (r, st')"
  shows "r = Inr ()"
    and "calls st' = calls st @ [Reply_to msg txt kw]"
    and "previous_cache st' (record_key ec msg txt) =
           Some \<lparr>cached = \<lparr>prev_text = Some txt, prev_message_id = Some sent\<rparr>,
                 storedtime = now\<rparr>"
  using assms(3,4) unfolding smart_reply_new [OF assms(1,2)]
  by (auto simp add: Let_def previous_get_def split: option.splits)

lemma smart_reply_failed:
  assumes "in_group msg" and "\<not> has_text now (previous_cache st (record_key ec msg txt)) txt"
    and "b (calls st) (Reply_to msg txt kw) = Inl e"
    and "smart_reply ec b now msg txt kw st = (r, st')"
  shows "r = Inl e"
    and "calls st' = calls st @ [Reply_to msg txt kw]"
    and "previous_cache st' = previous_cache (snd (previous_get now (record_key ec msg txt) st))"
  using assms(3,4) unfolding smart_reply_new [OF assms(1,2)]
  by (auto simp add: Let_def previous_get_def split: option.splits)

lemma live_fresh:
  "now1 \<le> now2 \<Longrightarrow> now2 < now1 + 600 \<Longrightarrow>
   live now2 (Some \<lparr>cached = v, storedtime = now1\<rparr>) = Some v"
  by (simp add: live_def is_expired_def expire_def)

lemma has_text_after_sent:
  "has_text t (Some \<lparr>cached = \<lparr>prev_text = Some a, prev_message_id = m\<rparr>, storedtime = s\<rparr>) b
     \<Longrightarrow> a = b"
  by (simp add: has_text_def live_def split: if_splits)

lemma dedup_record_empty:
  "dedup_record t (Some \<lparr>cached = empty_dict, storedtime = s\<rparr>) = None"
  by (simp add: dedup_record_def empty_dict_def)

lemma dedup_record_expired:
  "live now e = None \<Longrightarrow> now \<le> t \<Longrightarrow> dedup_record t e = None"
  by (auto simp add: dedup_record_def live_def is_expired_def split: option.splits if_splits)

lemma previous_get_dedup:
  "now \<le> t \<Longrightarrow>
   dedup_record t (previous_cache (snd (previous_get now k st)) k')
     = dedup_record t (previous_cache st k')"
  by (auto simp add: previous_get_def dedup_record_empty dedup_record_expired
      split: option.splits)

lemma previous_get_no_text:
  "\<not> has_text now (previous_cache st k) txt \<Longrightarrow>
   \<not> has_text t (previous_cache (snd (previous_get now k st)) k) txt"
  by (auto simp add: previous_get_def has_text_def live_def empty_dict_def
      split: option.splits if_splits)

text \<open>Evaluation of the examples: the definitions a run on concrete inputs unfolds.\<close>

lemmas run_defs =
  smart_reply_def previous_get_def live_def is_expired_def expire_def transport_def
  cache_key_def extract_command_def numbering_bot_def failing_once_bot_def group_msg_def
  private_msg_def init_def empty_dict_def in_group_def record_key_def has_text_def
  dedup_record_def Let_def

text \<open>
  C2: in a group, when the chat's record does not hold the text already, the transport
  accepts the send, and the second call comes within the 600 seconds of the record, two
  calls with the same text (replies to any two messages of the chat) make exactly one real
  send and then one pointer reply, which refers to the id of the message the first call
  sent. A later call with a different text of the same category (the same result of
  \<open>extract_command\<close>) makes a real send, and the record then holds the new text and the id
  of the new message.
\<close>

theorem C2_duplicate_suppressed_in_group:
  assumes grp: "in_group m1" and c2: "chat m2 = chat m1" and c3: "chat m3 = chat m1"
    and new: "\<not> has_text now1 (previous_cache st0 (record_key ec m1 txt)) txt"
    and sent1: "b (calls st0) (Reply_to m1 txt kw1) = Inr mid1"
    and window: "now1 \<le> now2 \<and> now2 < now1 + 600"
    and s1: "smart_reply ec b now1 m1 txt kw1 st0 = (r1, st1)"
    and s2: "smart_reply ec b now2 m2 txt kw2 st1 = (r2, st2)"
    and other: "txt' \<noteq> txt \<and> ec txt' = ec txt"
    and sent3: "b (calls st2) (Reply_to m3 txt' kw3) = Inr mid3"
    and s3: "smart_reply ec b now3 m3 txt' kw3 st2 = (r3, st3)"
  shows "calls st2 = calls st0 @ [Reply_to m1 txt kw1,
                                  Send_message (chat_id (chat m1)) pointer_text (Some mid1)]
       \<and> calls st3 = calls st2 @ [Reply_to m3 txt' kw3]
       \<and> previous_cache st3 (record_key ec m1 txt) =
           Some \<lparr>cached = \<lparr>prev_text = Some txt', prev_message_id = Some mid3\<rparr>,
                 storedtime = now3\<rparr>"
proof -
  let ?k = "record_key ec m1 txt"
  have k2: "record_key ec m2 txt = ?k" and k3: "record_key ec m3 txt' = ?k"
    using c2 c3 other by (simp_all add: record_key_def cache_key_def)
  have g2: "in_group m2" and g3: "in_group m3"
    using grp c2 c3 by (simp_all add: in_group_def)
  note first = smart_reply_sent [OF grp new sent1 s1]
  have rec1: "previous_cache st1 ?k =
      Some \<lparr>cached = \<lparr>prev_text = Some txt, prev_message_id = Some mid1\<rparr>, storedtime = now1\<rparr>"
    by (rule first(3))
  have live2: "live now2 (previous_cache st1 (record_key ec m2 txt)) =
      Some \<lparr>prev_text = Some txt, prev_message_id = Some mid1\<rparr>"
    using window by (simp add: k2 rec1 live_fresh)
  have second: "smart_reply ec b now2 m2 txt kw2 st1 =
     (case b (calls st1) (Send_message (chat_id (chat m2)) pointer_text (Some mid1)) of
        Inl e \<Rightarrow> Inl e | Inr _ \<Rightarrow> Inr (),
      st1\<lparr>calls := calls st1 @ [Send_message (chat_id (chat m2)) pointer_text (Some mid1)]\<rparr>)"
    by (rule smart_reply_duplicate [OF g2 live2]) simp_all
  from second s2
  have st2: "st2 = st1\<lparr>calls := calls st1 @
                [Send_message (chat_id (chat m2)) pointer_text (Some mid1)]\<rparr>"
    by simp
  have calls2: "calls st2 = calls st0 @ [Reply_to m1 txt kw1,
                                  Send_message (chat_id (chat m1)) pointer_text (Some mid1)]"
    by (simp add: st2 first(2) c2)
  have rec2: "previous_cache st2 (record_key ec m3 txt') =
      Some \<lparr>cached = \<lparr>prev_text = Some txt, prev_message_id = Some mid1\<rparr>, storedtime = now1\<rparr>"
    by (simp add: st2 k3 rec1)
  have new3: "\<not> has_text now3 (previous_cache st2 (record_key ec m3 txt')) txt'"
    using other by (auto simp add: rec2 dest: has_text_after_sent)
  note third = smart_reply_sent [OF g3 new3 sent3 s3]
  from calls2 third(2) third(3) show ?thesis by (simp add: k3)
qed

theorem C2_witness:
  "calls (snd (smart_reply extract_command numbering_bot 10 (group_msg 2 ''/events'') ''A'' []
        (snd (smart_reply extract_command numbering_bot 0 (group_msg 1 ''/events'') ''A'' []
           init))))
     = [Reply_to (group_msg 1 ''/events'') ''A'' [], Send_message 42 pointer_text (Some 1000)]
   \<and> calls (snd (smart_reply extract_command numbering_bot 20 (group_msg 3 ''/events'') ''B'' []
        (snd (smart_reply extract_command numbering_bot 10 (group_msg 2 ''/events'') ''A'' []
        (snd (smart_reply extract_command numbering_bot 0 (group_msg 1 ''/events'') ''A'' []
           init))))))
     = [Reply_to (group_msg 1 ''/events'') ''A'' [], Send_message 42 pointer_text (Some 1000),
        Reply_to (group_msg 3 ''/events'') ''B'' []]
   \<and> previous_cache
       (snd (smart_reply extract_command numbering_bot 20 (group_msg 3 ''/events'') ''B'' []
        (snd (smart_reply extract_command numbering_bot 10 (group_msg 2 ''/events'') ''A'' []
        (snd (smart_reply extract_command numbering_bot 0 (group_msg 1 ''/events'') ''A'' []
           init))))))
       (''pNone'', 42)
     = Some \<lparr>cached = \<lparr>prev_text = Some ''B'', prev_message_id = Some 1002\<rparr>,
             storedtime = 20\<rparr>"
proof -
  let ?m1 = "group_msg 1 ''/events''" and ?m2 = "group_msg 2 ''/events''"
    and ?m3 = "group_msg 3 ''/events''"
  let ?s1 = "snd (smart_reply extract_command numbering_bot 0 ?m1 ''A'' [] init)"
  let ?s2 = "snd (smart_reply extract_command numbering_bot 10 ?m2 ''A'' [] ?s1)"
  let ?s3 = "snd (smart_reply extract_command numbering_bot 20 ?m3 ''B'' [] ?s2)"
  have grp: "in_group ?m1" by (simp add: in_group_def group_msg_def)
  have c2: "chat ?m2 = chat ?m1" and c3: "chat ?m3 = chat ?m1"
    by (simp_all add: group_msg_def)
  have new: "\<not> has_text 0 (previous_cache init (record_key extract_command ?m1 ''A'')) ''A''"
    by (simp add: has_text_def init_def live_def)
  have sent1: "numbering_bot (calls init) (Reply_to ?m1 ''A'' []) = Inr 1000"
    by (simp add: numbering_bot_def init_def)
  have window: "(0::real) \<le> 10 \<and> (10::real) < 0 + 600" by simp
  have other: "''B'' \<noteq> ''A'' \<and> extract_command ''B'' = extract_command ''A''"
    by (simp add: extract_command_def)
  have sent3: "numbering_bot (calls ?s2) (Reply_to ?m3 ''B'' [])
                 = Inr (1000 + int (length (calls ?s2)))"
    by (simp add: numbering_bot_def)
  from C2_duplicate_suppressed_in_group [OF grp c2 c3 new sent1 window
      surjective_pairing surjective_pairing other sent3 surjective_pairing]
  have "calls ?s2 = calls init @ [Reply_to ?m1 ''A'' [],
                                  Send_message (chat_id (chat ?m1)) pointer_text (Some 1000)]
       \<and> calls ?s3 = calls ?s2 @ [Reply_to ?m3 ''B'' []]
       \<and> previous_cache ?s3 (record_key extract_command ?m1 ''A'') =
           Some \<lparr>cached = \<lparr>prev_text = Some ''B'',
                            prev_message_id = Some (1000 + int (length (calls ?s2)))\<rparr>,
                 storedtime = 20\<rparr>" .
  then show ?thesis
    by (simp add: init_def group_msg_def record_key_def cache_key_def extract_command_def)
qed

text \<open>
  C7: in a private conversation every call is one \<^verbatim>\<open>reply_to\<close> of the text, whatever the
  state holds: the result is that of the transport, and the state changes in the log of the
  calls only, so no record is read or written and no pointer reply is made. Two calls with
  the same text in a row are two such sends.
\<close>

theorem C7_private_always_sends:
  assumes "chat_type (chat msg) = ''private''"
  shows "smart_reply ec b now msg reply kw st =
          (case b (calls st) (Reply_to msg reply kw) of Inl e \<Rightarrow> Inl e | Inr _ \<Rightarrow> Inr (),
           st\<lparr>calls := calls st @ [Reply_to msg reply kw]\<rparr>)
       \<and> snd (smart_reply ec b later msg reply kw (snd (smart_reply ec b now msg reply kw st))) =
           st\<lparr>calls := calls st @ [Reply_to msg reply kw, Reply_to msg reply kw]\<rparr>"
proof -
  have ng: "\<not> in_group msg" using assms by (simp add: in_group_def)
  show ?thesis by (simp add: smart_reply_private [OF ng])
qed

theorem C7_witness:
  "calls (snd (smart_reply extract_command numbering_bot 5 (private_msg 2 ''/book'') ''A'' []
       (snd (smart_reply extract_command numbering_bot 0 (private_msg 2 ''/book'') ''A'' []
          init))))
     = [Reply_to (private_msg 2 ''/book'') ''A'' [], Reply_to (private_msg 2 ''/book'') ''A'' []]
   \<and> previous_cache
       (snd (smart_reply extract_command numbering_bot 5 (private_msg 2 ''/book'') ''A'' []
       (snd (smart_reply extract_command numbering_bot 0 (private_msg 2 ''/book'') ''A'' []
          init))))
     = previous_cache init"
proof -
  have p: "chat_type (chat (private_msg 2 ''/book'')) = ''private''"
    by (simp add: private_msg_def)
  from C7_private_always_sends [where ec = extract_command and b = numbering_bot
      and now = "0" and later = "5" and reply = "''A''" and kw = "[]" and st = init, OF p]
  have two: "snd (smart_reply extract_command numbering_bot 5 (private_msg 2 ''/book'') ''A'' []
       (snd (smart_reply extract_command numbering_bot 0 (private_msg 2 ''/book'') ''A'' []
          init)))
     = init\<lparr>calls := calls init @
         [Reply_to (private_msg 2 ''/book'') ''A'' [], Reply_to (private_msg 2 ''/book'') ''A'' []]\<rparr>"
    by (rule conjunct2)
  show ?thesis unfolding two by (simp add: init_def)
qed

text \<open>
  C8: in a group, when the entry of the chat under the key of the text is not expired and
  holds the text, the call leaves all reply caches as they were: the entry keeps its text,
  its message id and the time of its store, from which its expiry counts.
\<close>

theorem C8_duplicate_leaves_record:
  assumes "in_group msg"
    and "live now (previous_cache st (record_key ec msg txt)) = Some p"
    and "prev_text p = Some txt"
  shows "previous_cache (snd (smart_reply ec b now msg txt kw st)) = previous_cache st"
  using assms
  by (auto simp add: smart_reply_def in_group_def transport_def record_key_def
      previous_get_def Let_def split: sum.splits option.splits)

theorem C8_witness:
  "previous_cache (snd (smart_reply extract_command numbering_bot 599 (group_msg 2 ''/events'')
       ''A'' []
       (init\<lparr>previous_cache := (\<lambda>_. None)((''pNone'', 42) \<mapsto>
          \<lparr>cached = \<lparr>prev_text = Some ''A'', prev_message_id = Some 1000\<rparr>, storedtime = 0\<rparr>)\<rparr>)))
   = (\<lambda>_. None)((''pNone'', 42) \<mapsto>
          \<lparr>cached = \<lparr>prev_text = Some ''A'', prev_message_id = Some 1000\<rparr>, storedtime = 0\<rparr>)"
proof -
  let ?st = "init\<lparr>previous_cache := (\<lambda>_. None)((''pNone'', 42) \<mapsto>
          \<lparr>cached = \<lparr>prev_text = Some ''A'', prev_message_id = Some 1000\<rparr>, storedtime = 0\<rparr>)\<rparr>"
  let ?m = "group_msg 2 ''/events''"
  have grp: "in_group ?m" by (simp add: in_group_def group_msg_def)
  have lv: "live 599 (previous_cache ?st (record_key extract_command ?m ''A''))
              = Some \<lparr>prev_text = Some ''A'', prev_message_id = Some 1000\<rparr>"
    by (simp add: run_defs)
  from C8_duplicate_leaves_record [where b = numbering_bot and kw = "[]", OF grp lv]
  show ?thesis by simp
qed

text \<open>
  C9: in a group, when the text is new for the chat and the transport refuses the send, the
  call ends with the error of the transport; at no later time does any key hold another
  record than before (the call stores at most an empty dictionary, in place of no entry or
  of an expired one); and the next call with the same text in the chat, whenever it comes,
  makes a real send again.
\<close>

theorem C9_failed_send_not_recorded:
  assumes grp: "in_group m1" and c2: "chat m2 = chat m1"
    and new: "\<not> has_text now (previous_cache st0 (record_key ec m1 txt)) txt"
    and failed: "b (calls st0) (Reply_to m1 txt kw) = Inl e"
    and s1: "smart_reply ec b now m1 txt kw st0 = (r1, st1)"
    and s2: "smart_reply ec b later m2 txt kw' st1 = (r2, st2)"
  shows "r1 = Inl e
       \<and> (\<forall>t k. now \<le> t \<longrightarrow>
             dedup_record t (previous_cache st1 k) = dedup_record t (previous_cache st0 k))
       \<and> calls st2 = calls st1 @ [Reply_to m2 txt kw']"
proof -
  let ?k = "record_key ec m1 txt"
  have k2: "record_key ec m2 txt = ?k"
    using c2 by (simp add: record_key_def)
  have g2: "in_group m2"
    using grp c2 by (simp add: in_group_def)
  note first = smart_reply_failed [OF grp new failed s1]
  have unchanged: "\<forall>t k. now \<le> t \<longrightarrow>
             dedup_record t (previous_cache st1 k) = dedup_record t (previous_cache st0 k)"
    by (simp add: first(3) previous_get_dedup)
  have new2: "\<not> has_text later (previous_cache st1 (record_key ec m2 txt)) txt"
    unfolding k2 first(3) by (rule previous_get_no_text [OF new])
  have "calls st2 = calls st1 @ [Reply_to m2 txt kw']"
    using s2 unfolding smart_reply_new [OF g2 new2]
    by (auto simp add: Let_def previous_get_def split: option.splits sum.splits)
  with first(1) unchanged show ?thesis by blast
qed

theorem C9_witness:
  "fst (smart_reply extract_command failing_once_bot 0 (group_msg 1 ''/events'') ''A'' [] init)
     = Inl TransportError
   \<and> dedup_record 1
       (previous_cache
          (snd (smart_reply extract_command failing_once_bot 0 (group_msg 1 ''/events'') ''A'' []
             init))
          (''pNone'', 42))
     = None
   \<and> calls (snd (smart_reply extract_command failing_once_bot 1 (group_msg 2 ''/events'') ''A'' []
        (snd (smart_reply extract_command failing_once_bot 0 (group_msg 1 ''/events'') ''A'' []
           init))))
     = [Reply_to (group_msg 1 ''/events'') ''A'' [], Reply_to (group_msg 2 ''/events'') ''A'' []]"
proof -
  let ?m1 = "group_msg 1 ''/events''" and ?m2 = "group_msg 2 ''/events''"
  let ?s1 = "snd (smart_reply extract_command failing_once_bot 0 ?m1 ''A'' [] init)"
  let ?s2 = "snd (smart_reply extract_command failing_once_bot 1 ?m2 ''A'' [] ?s1)"
  have grp: "in_group ?m1" by (simp add: in_group_def group_msg_def)
  have c2: "chat ?m2 = chat ?m1" by (simp add: group_msg_def)
  have new: "\<not> has_text 0 (previous_cache init (record_key extract_command ?m1 ''A'')) ''A''"
    by (simp add: has_text_def init_def live_def)
  have failed: "failing_once_bot (calls init) (Reply_to ?m1 ''A'' []) = Inl TransportError"
    by (simp add: failing_once_bot_def init_def)
  from C9_failed_send_not_recorded [where ec = extract_command and b = failing_once_bot
      and later = "1" and kw' = "[]", OF grp c2 new failed surjective_pairing surjective_pairing]
  have "fst (smart_reply extract_command failing_once_bot 0 ?m1 ''A'' [] init)
          = Inl TransportError
       \<and> (\<forall>t k. 0 \<le> t \<longrightarrow>
             dedup_record t (previous_cache ?s1 k) = dedup_record t (previous_cache init k))
       \<and> calls ?s2 = calls ?s1 @ [Reply_to ?m2 ''A'' []]" .
  moreover have "calls ?s1 = [Reply_to ?m1 ''A'' []]"
    by (simp add: run_defs)
  moreover have "dedup_record 1 (previous_cache init (''pNone'', 42)) = None"
    by (simp add: dedup_record_def init_def)
  moreover have "(0::real) \<le> 1" by simp
  ultimately show ?thesis by (metis append_Cons append_Nil)
qed

text \<open>
  C5: the key is computed from the text of the reply (line 164 passes \<open>text\<close>, the reply, to
  \<^verbatim>\<open>extract_command\<close>, where line 207 passes the text of the message), so it does not
  separate the commands: in a group, two different replies for which \<open>extract_command\<close>
  gives the same result (none, for replies that do not start with a command) share the one
  record of the chat. After the first reply and then the second, each sent in full, the
  record holds the second, and a repetition of the first is sent in full again, whatever the
  times of the calls: records per command would have answered it with a pointer.
\<close>

theorem C5_commands_share_one_record:
  assumes grp: "in_group m1" and c2: "chat m2 = chat m1" and c3: "chat m3 = chat m1"
    and new: "\<not> has_text now1 (previous_cache st0 (record_key ec m1 t1)) t1"
    and differ: "t1 \<noteq> t2" and same_key: "ec t1 = ec t2"
    and sent1: "b (calls st0) (Reply_to m1 t1 kw1) = Inr i1"
    and s1: "smart_reply ec b now1 m1 t1 kw1 st0 = (r1, st1)"
    and sent2: "b (calls st1) (Reply_to m2 t2 kw2) = Inr i2"
    and s2: "smart_reply ec b now2 m2 t2 kw2 st1 = (r2, st2)"
    and s3: "smart_reply ec b now3 m3 t1 kw3 st2 = (r3, st3)"
  shows "calls st3 = calls st0 @ [Reply_to m1 t1 kw1, Reply_to m2 t2 kw2, Reply_to m3 t1 kw3]
       \<and> record_key ec m2 t2 = record_key ec m1 t1"
proof -
  let ?k = "record_key ec m1 t1"
  have k2: "record_key ec m2 t2 = ?k" and k3: "record_key ec m3 t1 = ?k"
    using c2 c3 same_key by (simp_all add: record_key_def cache_key_def)
  have g2: "in_group m2" and g3: "in_group m3"
    using grp c2 c3 by (simp_all add: in_group_def)
  note first = smart_reply_sent [OF grp new sent1 s1]
  have new2: "\<not> has_text now2 (previous_cache st1 (record_key ec m2 t2)) t2"
    using differ by (auto simp add: k2 first(3) dest: has_text_after_sent)
  note second = smart_reply_sent [OF g2 new2 sent2 s2]
  have new3: "\<not> has_text now3 (previous_cache st2 (record_key ec m3 t1)) t1"
    using differ second(3) by (auto simp add: k2 k3 dest: has_text_after_sent)
  have "calls st3 = calls st2 @ [Reply_to m3 t1 kw3]"
    using s3 unfolding smart_reply_new [OF g3 new3]
    by (auto simp add: Let_def previous_get_def split: option.splits sum.splits)
  with first(2) second(2) k2 show ?thesis by simp
qed

theorem C5_witness:
  "calls (snd (smart_reply extract_command numbering_bot 20 (group_msg 3 ''/events'')
          ''[Meetup](http://meetup.com/e/1): 14/11 19:13'' []
        (snd (smart_reply extract_command numbering_bot 10 (group_msg 2 ''/book'')
          (book_line ''Example Book'') []
        (snd (smart_reply extract_command numbering_bot 0 (group_msg 1 ''/events'')
          ''[Meetup](http://meetup.com/e/1): 14/11 19:13'' [] init))))))
     = [Reply_to (group_msg 1 ''/events'') ''[Meetup](http://meetup.com/e/1): 14/11 19:13'' [],
        Reply_to (group_msg 2 ''/book'') (book_line ''Example Book'') [],
        Reply_to (group_msg 3 ''/events'') ''[Meetup](http://meetup.com/e/1): 14/11 19:13'' []]
   \<and> record_key extract_command (group_msg 2 ''/book'') (book_line ''Example Book'')
       = (''pNone'', 42)
   \<and> record_key extract_command (group_msg 1 ''/events'')
         ''[Meetup](http://meetup.com/e/1): 14/11 19:13''
       = (''pNone'', 42)"
proof -
  let ?m1 = "group_msg 1 ''/events''" and ?m2 = "group_msg 2 ''/book''"
    and ?m3 = "group_msg 3 ''/events''"
  let ?e = "''[Meetup](http://meetup.com/e/1): 14/11 19:13''"
  let ?b = "book_line ''Example Book''"
  let ?s1 = "snd (smart_reply extract_command numbering_bot 0 ?m1 ?e [] init)"
  have grp: "in_group ?m1" by (simp add: in_group_def group_msg_def)
  have c2: "chat ?m2 = chat ?m1" and c3: "chat ?m3 = chat ?m1"
    by (simp_all add: group_msg_def)
  have new: "\<not> has_text 0 (previous_cache init (record_key extract_command ?m1 ?e)) ?e"
    by (simp add: has_text_def init_def live_def)
  have differ: "?e \<noteq> ?b" by (simp add: book_line_def)
  have same_key: "extract_command ?e = extract_command ?b"
    by (simp add: extract_command_def book_line_def)
  have sent1: "numbering_bot (calls init) (Reply_to ?m1 ?e []) = Inr 1000"
    by (simp add: numbering_bot_def init_def)
  have sent2: "numbering_bot (calls ?s1) (Reply_to ?m2 ?b [])
                 = Inr (1000 + int (length (calls ?s1)))"
    by (simp add: numbering_bot_def)
  from C5_commands_share_one_record [where ?now3.0 = "20" and ?kw3.0 = "[]",
      OF grp c2 c3 new differ same_key sent1 surjective_pairing sent2 surjective_pairing
         surjective_pairing]
  show ?thesis
    by (simp add: init_def record_key_def cache_key_def extract_command_def group_msg_def)
qed

subsection \<open>The extraction of the free book\<close>

lemma startswith_prefix: "startswith l s = prefix l s"
  by (induction l s rule: startswith.induct) simp_all

lemma occurs_sublist: "occurs l s = sublist l s"
proof (induction s)
  case Nil
  then show ?case by (simp add: startswith_prefix)
next
  case (Cons c cs)
  then show ?case by (simp add: startswith_prefix sublist_Cons_right)
qed

lemma not_sublist_drop: "\<not> sublist l s \<Longrightarrow> \<not> sublist l (drop n s)"
  using sublist_drop sublist_order.order.trans by blast

lemma not_sublist_tail: "\<not> sublist l (c # cs) \<Longrightarrow> \<not> sublist l cs"
  by (simp add: sublist_Cons_right)

text \<open>A pattern with a literal item matches no text in which the literal does not occur.\<close>

lemma rmatch_needs_literal:
  "Lit l \<in> set items \<Longrightarrow> \<not> sublist l s \<Longrightarrow> rmatch items s opened g = None"
proof (induction items s opened g rule: rmatch.induct)
  case (2 l' items s opened g)
  show ?case
  proof (cases "startswith l' s")
    case False
    then show ?thesis by simp
  next
    case True
    show ?thesis
    proof (cases "l' = l")
      case True
      with \<open>startswith l' s\<close> have "prefix l s" by (simp add: startswith_prefix)
      then have "sublist l s" by (rule prefix_imp_sublist)
      with "2.prems" show ?thesis by simp
    next
      case False
      with "2.prems" have "Lit l \<in> set items" by simp
      moreover have "\<not> sublist l (drop (length l') s)"
        using "2.prems" by (simp add: not_sublist_drop)
      ultimately show ?thesis using "2.IH" True by simp
    qed
  qed
qed (auto dest: not_sublist_tail)

lemma search_needs_literal:
  "Lit l \<in> set items \<Longrightarrow> \<not> sublist l s \<Longrightarrow> search items s = None"
  by (induction s) (auto simp add: rmatch_needs_literal dest: not_sublist_tail)

lemma regex_strategy_needs_marker:
  assumes "\<not> sublist ''deal-of-the-day'' doc"
  shows "regex_strategy doc = None"
proof -
  have "sublist ''deal-of-the-day'' ''\"deal-of-the-day\"''"
    by (simp add: occurs_sublist [symmetric])
  with assms have "\<not> sublist ''\"deal-of-the-day\"'' doc"
    using sublist_order.order.trans by blast
  then have "search book_re doc = None"
    by (intro search_needs_literal) (simp_all add: book_re_def)
  then show ?thesis by (simp add: regex_strategy_def)
qed

lemma regex_strategy_needs_countdown:
  assumes "\<not> occurs ''<span class=\"packt-js-countdown\" data-countdown-to=\"'' doc"
  shows "regex_strategy doc = None"
proof -
  have "search book_re doc = None"
    using assms by (intro search_needs_literal) (simp_all add: book_re_def occurs_sublist)
  then show ?thesis by (simp add: regex_strategy_def)
qed

lemmas extract_defs =
  regex_strategy_def book_re_def tag_end_def is_digit_def is_space_def py_int_def strip_def
  digit_value_def is_int_space_def max_str_digits_def

lemma regex_strategy_example_doc:
  "regex_strategy example_doc = Some (''Example Book'', 1700000000)"
  by (simp add: extract_defs example_doc_def)

lemma regex_strategy_fallback_doc: "regex_strategy fallback_doc = None"
  by (rule regex_strategy_needs_countdown) (simp add: fallback_doc_def)

lemma html_strategy_fallback_doc:
  "html_strategy example_soup fallback_doc = Inr (''Example Book'', 1700000000)"
  by (simp add: html_strategy_def example_soup_def py_int_def strip_def is_space_def
      is_digit_def digit_value_def is_int_space_def max_str_digits_def)

lemma no_offer_doc_no_marker: "\<not> sublist ''deal-of-the-day'' no_offer_doc"
  by (simp add: occurs_sublist [symmetric] no_offer_doc_def)

lemma regex_strategy_no_offer_doc: "regex_strategy no_offer_doc = None"
  by (rule regex_strategy_needs_marker [OF no_offer_doc_no_marker])

lemma html_strategy_no_offer_doc:
  "html_strategy example_soup no_offer_doc = Inl AttributeError"
  by (simp add: html_strategy_def example_soup_def no_offer_doc_def example_doc_def
      fallback_doc_def)

text \<open>
  C4, as stated, fails on the kind of the error: the code has no ExtractionError and wraps
  nothing. For a document without the widget the pattern finds no match, which is logged
  and passed over, and the fallback reads \<^verbatim>\<open>select_one\<close> of the \<^verbatim>\<open>None\<close> that the search
  for the container returned: the function ends with that AttributeError itself.
\<close>

theorem C4_counterexample:
  "extract_packt_free_book example_soup ascii (Plain (Str no_offer_doc)) (Some ''utf-8'')
     = Inl AttributeError"
  by (simp add: extract_packt_free_book_def to_str_def regex_strategy_no_offer_doc
      html_strategy_no_offer_doc)

text \<open>
  C4, amended: for every content that reads and decodes to a document in which the text
  \<^verbatim>\<open>deal-of-the-day\<close> does not occur and in which the parser finds no element with that id,
  the pattern strategy fails, then the fallback strategy fails, and \<^verbatim>\<open>extract_packt_free_book\<close>
  ends with the AttributeError of the fallback, unwrapped.
\<close>

theorem C4_no_marker_fails:
  assumes "to_str decode content encoding = Inr doc"
    and "\<not> sublist ''deal-of-the-day'' doc"
    and "select_one soup (BeautifulSoup soup doc) ''#deal-of-the-day'' = None"
  shows "regex_strategy doc = None
       \<and> html_strategy soup doc = Inl AttributeError
       \<and> extract_packt_free_book soup decode content encoding = Inl AttributeError"
  using assms
  by (simp add: extract_packt_free_book_def regex_strategy_needs_marker html_strategy_def)

theorem C4_witness:
  "regex_strategy no_offer_doc = None
   \<and> html_strategy example_soup no_offer_doc = Inl AttributeError
   \<and> extract_packt_free_book example_soup ascii (File (Bytes no_offer_doc)) (Some ''utf-8'')
       = Inl AttributeError"
proof -
  have decoded: "to_str ascii (File (Bytes no_offer_doc)) (Some ''utf-8'') = Inr no_offer_doc"
    by (simp add: to_str_def ascii_def no_offer_doc_def)
  have absent: "select_one example_soup (BeautifulSoup example_soup no_offer_doc)
                  ''#deal-of-the-day'' = None"
    by (simp add: example_soup_def no_offer_doc_def example_doc_def fallback_doc_def)
  from C4_no_marker_fails [OF decoded no_offer_doc_no_marker absent]
  show ?thesis .
qed

lemma example_doc_widget: "widget_doc ''1700000000'' '' Example Book '' = example_doc"
  by (simp add: widget_doc_def example_doc_def)

lemma trim_fixed:
  assumes "s \<noteq> []" and "\<not> p (hd s)" and "\<not> p (last s)"
  shows "rev (dropWhile p (rev (dropWhile p s))) = s"
proof -
  have front: "dropWhile p s = s"
    using assms by (cases s) auto
  obtain xs x where "s = xs @ [x]"
    using assms(1) by (cases s rule: rev_cases) auto
  then have "dropWhile p (rev s) = rev s"
    using assms(3) by simp
  with front show ?thesis by simp
qed

lemma int_digits_all:
  "ds \<noteq> [] \<Longrightarrow> list_all is_digit ds \<Longrightarrow>
   int_digits acc ds = Some (foldl (\<lambda>n c. n * 10 + digit_value c) acc ds)"
  by (induction acc ds rule: int_digits.induct) simp_all

lemma py_int_digits:
  assumes "ds \<noteq> []" and "list_all is_digit ds" and "length ds \<le> max_str_digits"
  shows "py_int ds = Inr (decimal ds)"
proof -
  from assms obtain c cs where ds: "ds = c # cs" by (cases ds) auto
  have digit_hd: "is_digit (hd ds)" and digit_last: "is_digit (last ds)"
    using assms by (auto simp add: list_all_iff)
  have no_space: "\<And>c. is_digit c \<Longrightarrow> \<not> is_int_space c"
    by (auto simp add: is_digit_def is_int_space_def)
  have t: "rev (dropWhile is_int_space (rev (dropWhile is_int_space ds))) = ds"
    using assms(1) digit_hd digit_last by (intro trim_fixed) (auto dest: no_space)
  have sign: "c \<noteq> CHR ''-''" "c \<noteq> CHR ''+''"
    using digit_hd by (auto simp add: ds is_digit_def)
  have count: "filter is_digit cs = cs"
    using assms(2) by (simp add: ds list_all_iff)
  have "int_digits 0 ds = Some (decimal ds)"
    using assms by (simp add: int_digits_all decimal_def)
  then show ?thesis
    using sign digit_hd assms(3)
    unfolding py_int_def t Let_def by (simp add: ds count)
qed

text \<open>
  Two literals \<^verbatim>\<open>int\<close> refuses: one followed by the separator U+001C, which \<^verbatim>\<open>str.strip\<close>
  would drop, and one of more than \<open>max_str_digits\<close> digits.
\<close>

lemma py_int_separator: "py_int (''1700000000'' @ [CHR 0x1C]) = Inl ValueError"
  by (simp add: py_int_def is_int_space_def max_str_digits_def is_digit_def digit_value_def)

lemma py_int_too_long:
  assumes "list_all is_digit ds" and "max_str_digits < length ds"
  shows "py_int ds = Inl ValueError"
proof -
  from assms(2) obtain c cs where ds: "ds = c # cs" by (cases ds) auto
  have digit_hd: "is_digit (hd ds)" and digit_last: "is_digit (last ds)"
    using assms(1) ds by (auto simp add: list_all_iff)
  have no_space: "\<And>c. is_digit c \<Longrightarrow> \<not> is_int_space c"
    by (auto simp add: is_digit_def is_int_space_def)
  have t: "rev (dropWhile is_int_space (rev (dropWhile is_int_space ds))) = ds"
    using ds digit_hd digit_last by (intro trim_fixed) (auto dest: no_space)
  have sign: "c \<noteq> CHR ''-''" "c \<noteq> CHR ''+''"
    using digit_hd by (auto simp add: ds is_digit_def)
  have count: "filter is_digit cs = cs"
    using assms(1) by (simp add: ds list_all_iff)
  show ?thesis
    using sign digit_hd assms(2)
    unfolding py_int_def t Let_def by (simp add: ds count)
qed

lemma many_skip:
  "list_all p xs \<Longrightarrow> rest = [] \<or> \<not> p (hd rest) \<Longrightarrow> rmatch items rest opened g = Some r \<Longrightarrow>
   rmatch (Many p # items) (xs @ rest) opened g = Some r"
proof (induction xs)
  case Nil
  then show ?case by (cases rest) auto
next
  case (Cons x xs)
  then show ?case by simp
qed

lemma lazy_here:
  "rmatch items s opened g = Some r \<Longrightarrow> rmatch (Lazy # items) s opened g = Some r"
  by (cases s) simp_all

lemma no_space_lt: "\<not> is_space (CHR ''<'')"
  by (simp add: is_space_def)

lemma closing_not_inside:
  "v \<noteq> [] \<Longrightarrow> \<not> is_space (last v) \<Longrightarrow> CHR ''<'' \<notin> set v \<Longrightarrow>
   rmatch [Many is_space, Lit ''</h2>''] (v @ rest) opened g = None"
proof (induction v)
  case Nil
  then show ?case by simp
next
  case (Cons c v)
  show ?case
  proof (cases "is_space c")
    case True
    with Cons.prems have "v \<noteq> []" by auto
    with Cons have "rmatch [Many is_space, Lit ''</h2>''] (v @ rest) opened g = None" by simp
    with True Cons.prems show ?thesis by simp
  next
    case False
    with Cons.prems show ?thesis by simp
  qed
qed

lemma lazy_over:
  assumes "list_all is_space w"
  shows "u = [] \<or> \<not> is_space (last u) \<Longrightarrow> CHR ''<'' \<notin> set u \<Longrightarrow>
   rmatch [Lazy, Close_group n, Many is_space, Lit ''</h2>''] (u @ w @ ''</h2>'' @ post) opened g
     = Some (g(n \<mapsto> take (length (opened n) - length (w @ ''</h2>'' @ post)) (opened n)))"
proof (induction u)
  case Nil
  let ?g = "g(n \<mapsto> take (length (opened n) - length (w @ ''</h2>'' @ post)) (opened n))"
  have "rmatch [Many is_space, Lit ''</h2>''] (w @ ''</h2>'' @ post) opened ?g = Some ?g"
    using assms by (intro many_skip) (simp_all add: no_space_lt)
  then have "rmatch [Close_group n, Many is_space, Lit ''</h2>''] (w @ ''</h2>'' @ post) opened g
               = Some ?g"
    by (simp only: rmatch.simps)
  then have "rmatch [Lazy, Close_group n, Many is_space, Lit ''</h2>''] (w @ ''</h2>'' @ post)
               opened g = Some ?g"
    by (rule lazy_here)
  then show ?case by (simp only: append_Nil)
next
  case (Cons c u)
  have "rmatch [Many is_space, Lit ''</h2>''] ((c # u) @ w @ ''</h2>'' @ post) opened g' = None" for g'
    using Cons.prems by (intro closing_not_inside) auto
  moreover have "u = [] \<or> \<not> is_space (last u)" "CHR ''<'' \<notin> set u"
    using Cons.prems by (auto split: if_splits)
  ultimately show ?case using Cons.IH by simp
qed

lemma strip_parts:
  "\<exists>w1 w2. s = w1 @ strip s @ w2 \<and> list_all is_space w1 \<and> list_all is_space w2
      \<and> (strip s = [] \<or> \<not> is_space (hd (strip s)) \<and> \<not> is_space (last (strip s)))"
proof -
  let ?r = "dropWhile is_space s"
  let ?w1 = "takeWhile is_space s"
  let ?w2 = "rev (takeWhile is_space (rev ?r))"
  have "?r = rev (rev ?r)" by simp
  also have "\<dots> = rev (takeWhile is_space (rev ?r) @ dropWhile is_space (rev ?r))"
    by (simp only: takeWhile_dropWhile_id)
  also have "\<dots> = strip s @ ?w2" by (simp only: rev_append strip_def)
  finally have r: "?r = strip s @ ?w2" .
  have "s = ?w1 @ ?r" by simp
  with r have whole: "s = ?w1 @ strip s @ ?w2" by simp
  have spaces: "list_all is_space ?w1" "list_all is_space ?w2"
    by (auto simp add: list_all_iff dest: set_takeWhileD)
  have ends: "strip s = [] \<or> \<not> is_space (hd (strip s)) \<and> \<not> is_space (last (strip s))"
  proof (cases "strip s = []")
    case False
    then have ne: "dropWhile is_space (rev ?r) \<noteq> []" by (simp add: strip_def)
    then have "\<not> is_space (hd (dropWhile is_space (rev ?r)))" by (rule hd_dropWhile)
    then have last: "\<not> is_space (last (strip s))" using ne by (simp add: strip_def last_rev)
    from False r have "?r \<noteq> []" by (metis append_is_Nil_conv)
    then have "\<not> is_space (hd ?r)" by (rule hd_dropWhile)
    moreover have "hd ?r = hd (strip s)" using False r by (metis hd_append2)
    ultimately show ?thesis using last by simp
  qed simp
  from whole spaces ends show ?thesis by blast
qed

lemma heading_match:
  assumes "CHR ''<'' \<notin> set heading"
  shows "rmatch [Many is_space, Open_group 2, Lazy, Close_group 2, Many is_space, Lit ''</h2>'']
           (heading @ ''</h2>'' @ post) opened g = Some (g(2 \<mapsto> strip heading))"
proof -
  let ?core = "strip heading"
  from strip_parts obtain w1 w2 where parts: "heading = w1 @ ?core @ w2"
    and w1: "list_all is_space w1" and w2: "list_all is_space w2"
    and ends: "?core = [] \<or> \<not> is_space (hd ?core) \<and> \<not> is_space (last ?core)"
    by blast
  have inside: "CHR ''<'' \<notin> set ?core"
    using assms by (subst (asm) parts) simp
  show ?thesis
  proof (cases "?core = []")
    case True
    let ?rest = "''</h2>'' @ post"
    have "rmatch [Lazy, Close_group 2, Many is_space, Lit ''</h2>''] ([] @ [] @ ?rest)
            (opened(2 := ?rest)) g = Some (g(2 \<mapsto> []))"
      by (subst lazy_over) simp_all
    then have "rmatch [Open_group 2, Lazy, Close_group 2, Many is_space, Lit ''</h2>''] ?rest
                 opened g = Some (g(2 \<mapsto> []))"
      by simp
    moreover have "list_all is_space (w1 @ w2)" using w1 w2 by simp
    moreover have "?rest = [] \<or> \<not> is_space (hd ?rest)" by (simp add: no_space_lt)
    ultimately have "rmatch [Many is_space, Open_group 2, Lazy, Close_group 2, Many is_space,
        Lit ''</h2>''] ((w1 @ w2) @ ?rest) opened g = Some (g(2 \<mapsto> []))"
      by (intro many_skip)
    then have found: "rmatch [Many is_space, Open_group 2, Lazy, Close_group 2,
        Many is_space, Lit ''</h2>''] ((w1 @ w2) @ ?rest) opened g = Some (g(2 \<mapsto> []))" .
    have eq: "heading @ ''</h2>'' @ post = (w1 @ w2) @ ?rest"
      using True by (subst parts) simp
    show ?thesis unfolding eq True by (fact found)
  next
    case False
    let ?rest = "?core @ w2 @ ''</h2>'' @ post"
    have "rmatch [Lazy, Close_group 2, Many is_space, Lit ''</h2>''] ?rest
            (opened(2 := ?rest)) g = Some (g(2 \<mapsto> ?core))"
      using ends inside False by (subst lazy_over [OF w2]) simp_all
    then have "rmatch [Open_group 2, Lazy, Close_group 2, Many is_space, Lit ''</h2>''] ?rest
                 opened g = Some (g(2 \<mapsto> ?core))"
      by simp
    moreover have "?rest = [] \<or> \<not> is_space (hd ?rest)"
      using ends False by simp
    ultimately have "rmatch [Many is_space, Open_group 2, Lazy, Close_group 2, Many is_space,
        Lit ''</h2>''] (w1 @ ?rest) opened g = Some (g(2 \<mapsto> ?core))"
      using w1 by (intro many_skip)
    then have found: "rmatch [Many is_space, Open_group 2, Lazy, Close_group 2,
        Many is_space, Lit ''</h2>''] (w1 @ ?rest) opened g = Some (g(2 \<mapsto> ?core))" .
    have eq: "heading @ ''</h2>'' @ post = w1 @ ?rest"
      by (subst parts) simp
    show ?thesis unfolding eq by (fact found)
  qed
qed


lemma heading_tag_match:
  "rmatch items s opened g = Some r \<Longrightarrow>
   rmatch (Lit ''\"></span>'' # Lazy # Lit ''<h2'' # One tag_end # items)
     (''\"></span></div><div><h2>'' @ s) opened g = Some r"
  by (simp add: tag_end_def)

lemma countdown_match:
  assumes "ds \<noteq> []" and "list_all is_digit ds" and "rest = [] \<or> \<not> is_digit (hd rest)"
    and "rmatch items rest (opened(1 := ds @ rest)) (g(1 \<mapsto> ds)) = Some r"
  shows "rmatch (Open_group 1 # One is_digit # Many is_digit # Close_group 1 # items)
           (ds @ rest) opened g = Some r"
proof -
  from assms(1) obtain c cs where ds: "ds = c # cs" by (cases ds) auto
  with assms(2) have c: "is_digit c" and cs: "list_all is_digit cs" by simp_all
  have "rmatch (Close_group 1 # items) rest (opened(1 := ds @ rest)) g = Some r"
    using assms(4) by simp
  then have "rmatch (Many is_digit # Close_group 1 # items) (cs @ rest)
               (opened(1 := ds @ rest)) g = Some r"
    using cs assms(3) by (intro many_skip)
  then show ?thesis using c by (simp add: ds)
qed

lemma widget_match:
  "rmatch items s (\<lambda>_. []) (\<lambda>_. None) = Some r \<Longrightarrow>
   search
     ([Lit ''\"deal-of-the-day\"'', Lazy,
       Lit ''<div'', One tag_end, Lazy, Lit ''<div'', One tag_end, Lazy,
       Lit ''<div'', One tag_end, Lazy, Lit ''</div>'', Lazy, Lit ''<div'', One tag_end, Lazy,
       Lit ''<span class=\"packt-js-countdown\" data-countdown-to=\"''] @ items)
     (''<div id=\"deal-of-the-day\"><div><div><div class=\"img\"></div><div class=\"main\">'' @
      ''<div><span class=\"packt-js-countdown\" data-countdown-to=\"'' @ s) = Some r"
  by (simp add: tag_end_def)

lemma search_widget_doc:
  assumes "countdown \<noteq> []" and "list_all is_digit countdown" and "CHR ''<'' \<notin> set heading"
  shows "search book_re (widget_doc countdown heading)
           = Some ((\<lambda>_. None)(1 \<mapsto> countdown, 2 \<mapsto> strip heading))"
proof -
  let ?post = "''</div></div></div></div></div>''"
  let ?title = "[Many is_space, Open_group 2, Lazy, Close_group 2, Many is_space, Lit ''</h2>'']"
  let ?tag = "Lit ''\"></span>'' # Lazy # Lit ''<h2'' # One tag_end # ?title"
  let ?tail = "''\"></span></div><div><h2>'' @ heading @ ''</h2>'' @ ?post"
  let ?found = "(\<lambda>_. None)(1 \<mapsto> countdown, 2 \<mapsto> strip heading)"
  have "rmatch ?title (heading @ ''</h2>'' @ ?post)
          ((\<lambda>_. [])(1 := countdown @ ?tail)) ((\<lambda>_. None)(1 \<mapsto> countdown)) = Some ?found"
    using assms(3) by (rule heading_match)
  then have "rmatch ?tag ?tail
          ((\<lambda>_. [])(1 := countdown @ ?tail)) ((\<lambda>_. None)(1 \<mapsto> countdown)) = Some ?found"
    by (rule heading_tag_match)
  moreover have "?tail = [] \<or> \<not> is_digit (hd ?tail)"
    by (simp add: is_digit_def)
  ultimately have "rmatch (Open_group 1 # One is_digit # Many is_digit # Close_group 1 # ?tag)
          (countdown @ ?tail) (\<lambda>_. []) (\<lambda>_. None) = Some ?found"
    using assms(1,2) by (intro countdown_match)
  then have "search
     ([Lit ''\"deal-of-the-day\"'', Lazy,
       Lit ''<div'', One tag_end, Lazy, Lit ''<div'', One tag_end, Lazy,
       Lit ''<div'', One tag_end, Lazy, Lit ''</div>'', Lazy, Lit ''<div'', One tag_end, Lazy,
       Lit ''<span class=\"packt-js-countdown\" data-countdown-to=\"''] @
      Open_group 1 # One is_digit # Many is_digit # Close_group 1 # ?tag)
     (''<div id=\"deal-of-the-day\"><div><div><div class=\"img\"></div><div class=\"main\">'' @
      ''<div><span class=\"packt-js-countdown\" data-countdown-to=\"'' @ countdown @ ?tail)
       = Some ?found"
    by (rule widget_match)
  then show ?thesis
    by (simp add: book_re_def widget_doc_def)
qed

lemma regex_strategy_widget_doc:
  assumes "countdown \<noteq> []" and "list_all is_digit countdown"
    and "length countdown \<le> max_str_digits" and "CHR ''<'' \<notin> set heading"
  shows "regex_strategy (widget_doc countdown heading) = Some (strip heading, decimal countdown)"
  using assms by (simp add: regex_strategy_def search_widget_doc py_int_digits)

text \<open>
  C6: a document that holds the widget as the pattern expects it goes through the pattern
  strategy, which returns the text of the heading without the white space around it and
  the number of the countdown, whatever they are (a heading without \<^verbatim>\<open><\<close>, a countdown of
  at most \<open>max_str_digits\<close> digits); \<open>example_doc\<close> is the one with the heading
  "Example Book" and the countdown 1700000000, and gives that pair. What the pattern
  strategy finds in a document is what \<^verbatim>\<open>extract_packt_free_book\<close> returns for every content
  that reads and decodes to it, whatever the soup is. For a document the pattern does not
  match and in which the structural path resolves (the container, the heading and the
  countdown under it, and an attribute that is an integer literal), the fallback strategy
  returns the stripped text of that heading and the number of that attribute, and so does
  the function: the same pair when the heading reads "Example Book" and the attribute is
  1700000000, which \<^verbatim>\<open>int\<close> reads as that number.
\<close>

theorem C6_extract_by_either_strategy:
  "(countdown \<noteq> [] \<and> list_all is_digit countdown \<and> length countdown \<le> max_str_digits
      \<and> CHR ''<'' \<notin> set heading
     \<longrightarrow> regex_strategy (widget_doc countdown heading)
           = Some (strip heading, decimal countdown))
   \<and> (example_doc = widget_doc ''1700000000'' '' Example Book ''
      \<and> regex_strategy example_doc = Some (''Example Book'', 1700000000))
   \<and> (to_str decode content encoding = Inr doc \<and> regex_strategy doc = Some result
     \<longrightarrow> extract_packt_free_book soup decode content encoding = Inr result)
   \<and> (to_str decode content' encoding = Inr doc' \<and> regex_strategy doc' = None
      \<and> select_one soup (BeautifulSoup soup doc') ''#deal-of-the-day'' = Some dealoftheday
      \<and> select_one soup dealoftheday ''div div div:nth-of-type(2) div:nth-of-type(2) h2''
          = Some h2
      \<and> select_one soup dealoftheday ''span.packt-js-countdown'' = Some counter
      \<and> attrs soup counter ''data-countdown-to'' = Some expires
      \<and> py_int expires = Inr n
     \<longrightarrow> html_strategy soup doc' = Inr (strip (tag_text soup h2), n)
       \<and> extract_packt_free_book soup decode content' encoding
           = Inr (strip (tag_text soup h2), n))
   \<and> py_int ''1700000000'' = Inr 1700000000"
proof -
  have family: "countdown \<noteq> [] \<and> list_all is_digit countdown
      \<and> length countdown \<le> max_str_digits \<and> CHR ''<'' \<notin> set heading
     \<longrightarrow> regex_strategy (widget_doc countdown heading)
           = Some (strip heading, decimal countdown)"
    by (simp add: regex_strategy_widget_doc)
  have example: "example_doc = widget_doc ''1700000000'' '' Example Book ''
      \<and> regex_strategy example_doc = Some (''Example Book'', 1700000000)"
    by (simp add: example_doc_widget regex_strategy_example_doc)
  have primary: "to_str decode content encoding = Inr doc \<and> regex_strategy doc = Some result
     \<longrightarrow> extract_packt_free_book soup decode content encoding = Inr result"
    by (simp add: extract_packt_free_book_def)
  have fallback: "to_str decode content' encoding = Inr doc' \<and> regex_strategy doc' = None
      \<and> select_one soup (BeautifulSoup soup doc') ''#deal-of-the-day'' = Some dealoftheday
      \<and> select_one soup dealoftheday ''div div div:nth-of-type(2) div:nth-of-type(2) h2''
          = Some h2
      \<and> select_one soup dealoftheday ''span.packt-js-countdown'' = Some counter
      \<and> attrs soup counter ''data-countdown-to'' = Some expires
      \<and> py_int expires = Inr n
     \<longrightarrow> html_strategy soup doc' = Inr (strip (tag_text soup h2), n)
       \<and> extract_packt_free_book soup decode content' encoding
           = Inr (strip (tag_text soup h2), n)"
    by (simp add: extract_packt_free_book_def html_strategy_def)
  have number: "py_int ''1700000000'' = Inr 1700000000"
    by (simp add: py_int_def is_int_space_def max_str_digits_def is_digit_def digit_value_def)
  show ?thesis
    by (rule conjI [OF family conjI [OF example conjI [OF primary conjI [OF fallback number]]]])
qed

theorem C6_witness:
  "regex_strategy (widget_doc ''1700000000'' '' Example Book '')
     = Some (''Example Book'', 1700000000)
   \<and> extract_packt_free_book example_soup ascii (File (Bytes example_doc)) (Some ''utf-8'')
       = Inr (''Example Book'', 1700000000)
   \<and> regex_strategy fallback_doc = None
   \<and> html_strategy example_soup fallback_doc = Inr (''Example Book'', 1700000000)
   \<and> extract_packt_free_book example_soup ascii (Plain (Str fallback_doc)) (Some ''utf-8'')
       = Inr (''Example Book'', 1700000000)"
proof -
  have digits: "''1700000000'' \<noteq> [] \<and> list_all is_digit ''1700000000''
      \<and> length ''1700000000'' \<le> max_str_digits \<and> CHR ''<'' \<notin> set '' Example Book ''"
    by (simp add: is_digit_def max_str_digits_def)
  have stripped: "strip '' Example Book '' = ''Example Book''"
    by (simp add: strip_def is_space_def)
  have denoted: "decimal ''1700000000'' = 1700000000"
    by (simp add: decimal_def digit_value_def)
  have decoded: "to_str ascii (File (Bytes example_doc)) (Some ''utf-8'') = Inr example_doc"
    by (simp add: to_str_def ascii_def example_doc_def)
  have read: "to_str ascii (Plain (Str fallback_doc)) (Some ''utf-8'') = Inr fallback_doc"
    by (simp add: to_str_def)
  have container: "select_one example_soup (BeautifulSoup example_soup fallback_doc)
                     ''#deal-of-the-day'' = Some 2"
    and heading: "select_one example_soup 2
                    ''div div div:nth-of-type(2) div:nth-of-type(2) h2'' = Some 3"
    and title: "strip (tag_text example_soup 3) = ''Example Book''"
    and countdown: "select_one example_soup 2 ''span.packt-js-countdown'' = Some 4"
    and attribute: "attrs example_soup 4 ''data-countdown-to'' = Some ''1700000000''"
    by (simp_all add: example_soup_def strip_def is_space_def)
  from C6_extract_by_either_strategy [where countdown = "''1700000000''"
      and heading = "'' Example Book ''" and soup = example_soup and decode = ascii
      and encoding = "Some ''utf-8''" and content = "File (Bytes example_doc)"
      and doc = example_doc and result = "(''Example Book'', 1700000000)"
      and content' = "Plain (Str fallback_doc)" and doc' = fallback_doc
      and dealoftheday = 2 and ?h2.0 = 3 and counter = 4 and expires = "''1700000000''"
      and n = 1700000000]
    digits stripped denoted decoded read regex_strategy_fallback_doc container heading title
    countdown attribute
  show ?thesis by simp
qed

subsection \<open>The cached fetches\<close>

lemma live_stale:
  "now1 + 600 \<le> now3 \<Longrightarrow> live now3 (Some \<lparr>cached = v, storedtime = now1\<rparr>) = None"
  by (simp add: live_def is_expired_def expire_def)

lemma get_events_miss:
  assumes "live now (events_cache st n) = None"
    and "get_events web cfg now n st = (Inr v, st')"
  shows "requests st' = requests st @ [events_request cfg (list_size_of n)]"
    and "events_cache st' n = Some \<lparr>cached = v, storedtime = now\<rparr>"
  using assms
  by (auto simp add: get_events_def generate_events_def http_get_def
      split: sum.splits prod.splits)

lemma get_events_hit:
  assumes "live now (events_cache st n) = Some v"
  shows "get_events web cfg now n st = (Inr v, st)"
  using assms by (simp add: get_events_def)

lemma get_events_refresh:
  assumes "live now (events_cache st n) = None"
    and "get_events web cfg now n st = (r, st')"
  shows "requests st' = requests st @ [events_request cfg (list_size_of n)]"
  using assms
  by (auto simp add: get_events_def generate_events_def http_get_def
      split: sum.splits prod.splits)

lemma get_packt_free_book_miss:
  assumes "live now (book_cache st) = None"
    and "get_packt_free_book soup decode web now st = (Inr v, st')"
  shows "requests st' = requests st @ [free_learning]"
    and "book_cache st' = Some \<lparr>cached = v, storedtime = now\<rparr>"
  using assms
  by (auto simp add: get_packt_free_book_def http_get_def split: sum.splits prod.splits)

lemma get_packt_free_book_hit:
  assumes "live now (book_cache st) = Some v"
  shows "get_packt_free_book soup decode web now st = (Inr v, st)"
  using assms by (simp add: get_packt_free_book_def)

lemma get_packt_free_book_refresh:
  assumes "live now (book_cache st) = None"
    and "get_packt_free_book soup decode web now st = (r, st')"
  shows "requests st' = requests st @ [free_learning]"
  using assms
  by (auto simp add: get_packt_free_book_def http_get_def split: sum.splits prod.splits)

text \<open>
  C3: for each of the two fetch operations, when a call finds no live entry and returns a
  value, it has made exactly one request; a second call (of \<open>get_events\<close>: with the same
  argument) less than 600 after it makes no request, changes nothing and returns the same
  value; and a call at 600 or more after the first makes the request again.
\<close>

theorem C3_fetch_cached_for_600:
  assumes window: "now1 \<le> now2 \<and> now2 < now1 + 600" and later: "now1 + 600 \<le> now3"
  shows "(live now1 (events_cache st0 n) = None
          \<and> get_events web cfg now1 n st0 = (Inr v, st1)
          \<and> get_events web cfg now2 n st1 = (r2, st2)
          \<and> get_events web cfg now3 n st2 = (r3, st3)
          \<longrightarrow> requests st1 = requests st0 @ [events_request cfg (list_size_of n)]
              \<and> r2 = Inr v \<and> st2 = st1
              \<and> requests st3 = requests st2 @ [events_request cfg (list_size_of n)])
       \<and> (live now1 (book_cache bt0) = None
          \<and> get_packt_free_book soup decode web now1 bt0 = (Inr w, bt1)
          \<and> get_packt_free_book soup decode web now2 bt1 = (q2, bt2)
          \<and> get_packt_free_book soup decode web now3 bt2 = (q3, bt3)
          \<longrightarrow> requests bt1 = requests bt0 @ [free_learning]
              \<and> q2 = Inr w \<and> bt2 = bt1
              \<and> requests bt3 = requests bt2 @ [free_learning])"
proof (intro conjI impI)
  assume a: "live now1 (events_cache st0 n) = None
          \<and> get_events web cfg now1 n st0 = (Inr v, st1)
          \<and> get_events web cfg now2 n st1 = (r2, st2)
          \<and> get_events web cfg now3 n st2 = (r3, st3)"
  then have first: "requests st1 = requests st0 @ [events_request cfg (list_size_of n)]"
    and stored: "events_cache st1 n = Some \<lparr>cached = v, storedtime = now1\<rparr>"
    by (auto dest: get_events_miss)
  have "live now2 (events_cache st1 n) = Some v"
    using window by (simp add: stored live_fresh)
  then have second: "get_events web cfg now2 n st1 = (Inr v, st1)"
    by (rule get_events_hit)
  with a have same: "r2 = Inr v" "st2 = st1" by simp_all
  have "live now3 (events_cache st2 n) = None"
    using later by (simp add: same stored live_stale)
  with a have third: "requests st3 = requests st2 @ [events_request cfg (list_size_of n)]"
    by (auto dest: get_events_refresh)
  show "requests st1 = requests st0 @ [events_request cfg (list_size_of n)]" by (rule first)
  show "r2 = Inr v" by (rule same(1))
  show "st2 = st1" by (rule same(2))
  show "requests st3 = requests st2 @ [events_request cfg (list_size_of n)]" by (rule third)
next
  assume a: "live now1 (book_cache bt0) = None
          \<and> get_packt_free_book soup decode web now1 bt0 = (Inr w, bt1)
          \<and> get_packt_free_book soup decode web now2 bt1 = (q2, bt2)
          \<and> get_packt_free_book soup decode web now3 bt2 = (q3, bt3)"
  then have first: "requests bt1 = requests bt0 @ [free_learning]"
    and stored: "book_cache bt1 = Some \<lparr>cached = w, storedtime = now1\<rparr>"
    by (auto dest: get_packt_free_book_miss)
  have "live now2 (book_cache bt1) = Some w"
    using window by (simp add: stored live_fresh)
  then have second: "get_packt_free_book soup decode web now2 bt1 = (Inr w, bt1)"
    by (rule get_packt_free_book_hit)
  with a have same: "q2 = Inr w" "bt2 = bt1" by simp_all
  have "live now3 (book_cache bt2) = None"
    using later by (simp add: same stored live_stale)
  with a have third: "requests bt3 = requests bt2 @ [free_learning]"
    by (auto dest: get_packt_free_book_refresh)
  show "requests bt1 = requests bt0 @ [free_learning]" by (rule first)
  show "q2 = Inr w" by (rule same(1))
  show "bt2 = bt1" by (rule same(2))
  show "requests bt3 = requests bt2 @ [free_learning]" by (rule third)
qed

lemmas fetch_defs =
  get_events_def generate_events_def get_packt_free_book_def http_get_def live_def
  is_expired_def expire_def init_def example_web_def list_size_of_def

lemma get_events_example:
  "fst (get_events example_web example_config 0 (Some 5) init) = Inr example_events"
  by (simp add: fetch_defs)

lemma extract_example_bytes:
  "extract_packt_free_book example_soup ascii (Plain (Bytes example_doc)) (Some ''utf-8'')
     = Inr (''Example Book'', 1700000000)"
proof -
  have "to_str ascii (Plain (Bytes example_doc)) (Some ''utf-8'') = Inr example_doc"
    by (simp add: to_str_def ascii_def example_doc_def)
  then show ?thesis
    by (simp add: extract_packt_free_book_def regex_strategy_example_doc)
qed

lemma get_packt_free_book_example:
  "fst (get_packt_free_book example_soup ascii example_web 0 init)
     = Inr (''Example Book'', 1700000000)"
  by (simp add: fetch_defs extract_example_bytes)

theorem C3_witness:
  "requests (snd (get_events example_web example_config 0 (Some 5) init))
     = [events_request example_config 5]
   \<and> get_events example_web example_config 599 (Some 5)
       (snd (get_events example_web example_config 0 (Some 5) init))
     = (Inr example_events, snd (get_events example_web example_config 0 (Some 5) init))
   \<and> requests (snd (get_events example_web example_config 600 (Some 5)
       (snd (get_events example_web example_config 0 (Some 5) init))))
     = [events_request example_config 5, events_request example_config 5]
   \<and> requests (snd (get_packt_free_book example_soup ascii example_web 0 init))
     = [free_learning]
   \<and> get_packt_free_book example_soup ascii example_web 599
       (snd (get_packt_free_book example_soup ascii example_web 0 init))
     = (Inr (''Example Book'', 1700000000),
        snd (get_packt_free_book example_soup ascii example_web 0 init))
   \<and> requests (snd (get_packt_free_book example_soup ascii example_web 600
       (snd (get_packt_free_book example_soup ascii example_web 0 init))))
     = [free_learning, free_learning]"
proof -
  let ?e1 = "get_events example_web example_config 0 (Some 5) init"
  let ?e2 = "get_events example_web example_config 599 (Some 5) (snd ?e1)"
  let ?e3 = "get_events example_web example_config 600 (Some 5) (snd ?e2)"
  let ?b1 = "get_packt_free_book example_soup ascii example_web 0 init"
  let ?b2 = "get_packt_free_book example_soup ascii example_web 599 (snd ?b1)"
  let ?b3 = "get_packt_free_book example_soup ascii example_web 600 (snd ?b2)"
  have window: "(0::real) \<le> 599 \<and> (599::real) < 0 + 600" and later: "(0::real) + 600 \<le> 600"
    by simp_all
  have miss_e: "live 0 (events_cache init (Some 5)) = None"
    and miss_b: "live 0 (book_cache init) = None"
    by (simp_all add: live_def init_def)
  have e1: "?e1 = (Inr example_events, snd ?e1)"
    using get_events_example by (metis prod.collapse)
  have b1: "?b1 = (Inr (''Example Book'', 1700000000), snd ?b1)"
    using get_packt_free_book_example by (metis prod.collapse)
  have e2: "?e2 = (fst ?e2, snd ?e2)" and e3: "?e3 = (fst ?e3, snd ?e3)"
    and b2: "?b2 = (fst ?b2, snd ?b2)" and b3: "?b3 = (fst ?b3, snd ?b3)"
    by simp_all
  note both = C3_fetch_cached_for_600 [OF window later,
      where ?st0.0 = init and n = "Some 5" and web = example_web and cfg = example_config
        and v = example_events and ?st1.0 = "snd ?e1" and ?r2.0 = "fst ?e2"
        and ?st2.0 = "snd ?e2" and ?r3.0 = "fst ?e3" and ?st3.0 = "snd ?e3"
        and ?bt0.0 = init and soup = example_soup and decode = ascii
        and w = "(''Example Book'', 1700000000)" and ?bt1.0 = "snd ?b1"
        and ?q2.0 = "fst ?b2" and ?bt2.0 = "snd ?b2" and ?q3.0 = "fst ?b3"
        and ?bt3.0 = "snd ?b3"]
  from both miss_e e1 e2 e3
  have ev: "requests (snd ?e1)
              = requests init @ [events_request example_config (list_size_of (Some 5))]
          \<and> fst ?e2 = Inr example_events \<and> snd ?e2 = snd ?e1
          \<and> requests (snd ?e3)
              = requests (snd ?e2) @ [events_request example_config (list_size_of (Some 5))]"
    by blast
  from both miss_b b1 b2 b3
  have bk: "requests (snd ?b1) = requests init @ [free_learning]
          \<and> fst ?b2 = Inr (''Example Book'', 1700000000) \<and> snd ?b2 = snd ?b1
          \<and> requests (snd ?b3) = requests (snd ?b2) @ [free_learning]"
    by blast
  have start: "requests init = []" and size: "list_size_of (Some 5) = 5"
    by (simp_all add: init_def list_size_of_def)
  from ev have ev1: "requests (snd ?e1) = [events_request example_config 5]"
    by (simp add: start size)
  from ev have ev2: "?e2 = (Inr example_events, snd ?e1)"
    by (metis prod.collapse)
  from ev have same_e: "snd ?e2 = snd ?e1" by blast
  from ev have "requests (snd ?e3)
      = requests (snd ?e2) @ [events_request example_config (list_size_of (Some 5))]"
    by blast
  then have ev3: "requests (snd (get_events example_web example_config 600 (Some 5) (snd ?e1)))
      = [events_request example_config 5, events_request example_config 5]"
    unfolding same_e ev1 size by simp
  from bk have bk1: "requests (snd ?b1) = [free_learning]"
    by (simp add: start)
  from bk have bk2: "?b2 = (Inr (''Example Book'', 1700000000), snd ?b1)"
    by (metis prod.collapse)
  from bk have same_b: "snd ?b2 = snd ?b1" by blast
  from bk have "requests (snd ?b3) = requests (snd ?b2) @ [free_learning]"
    by blast
  then have bk3: "requests (snd (get_packt_free_book example_soup ascii example_web 600
        (snd ?b1))) = [free_learning, free_learning]"
    unfolding same_b bk1 by simp
  from ev1 ev2 ev3 bk1 bk2 bk3 show ?thesis
    by (simp only: snd_conv simp_thms)
qed

subsection \<open>The list of events\<close>

lemma format_event_again:
  assumes "format_event tz ev = Inr (l, ev')"
  shows "format_event tz ev' = Inr (l, ev')" and "rendered tz ev ev'"
  using assms
  by (auto simp add: format_event_def rendered_def split: time_field.splits sum.splits)

lemma format_loop_again:
  "format_loop tz events response = (Inr lines, events') \<Longrightarrow>
   format_loop tz events' response = (Inr lines, events') \<and> list_all2 (rendered tz) events events'"
proof (induction events arbitrary: response lines events')
  case Nil
  then show ?case by simp
next
  case (Cons ev events)
  from Cons.prems obtain l ev' where body: "format_event tz ev = Inr (l, ev')"
    by (auto split: sum.splits)
  with Cons.prems obtain rest where
    loop: "format_loop tz events (response @ [l]) = (Inr lines, rest)"
    and whole: "events' = ev' # rest"
    by (auto split: prod.splits)
  from Cons.IH [OF loop] format_event_again [OF body] whole
  show ?case by simp
qed

lemma format_events_again:
  assumes "format_events tz events = (Inr out, events')"
  shows "format_events tz events' = (Inr out, events')"
    and "list_all2 (rendered tz) events events'"
proof -
  from assms obtain lines where loop: "format_loop tz events [] = (Inr lines, events')"
    and out: "out = join [CHR 0x0A] lines"
    by (auto simp add: format_events_def split: prod.splits sum.splits)
  from format_loop_again [OF loop]
  show "format_events tz events' = (Inr out, events')"
    and "list_all2 (rendered tz) events events'"
    by (simp_all add: format_events_def out)
qed

lemma events_response_hit:
  assumes miss: "live now1 (events_cache st0 (Some 5)) = None"
    and first: "events_response web cfg tz now1 st0 = (Inr out, st1)"
    and window: "now1 \<le> now2 \<and> now2 < now1 + 600"
  shows "events_response web cfg tz now2 st1 = (Inr out, st1)"
proof -
  from first obtain evs sta where fetch: "get_events web cfg now1 (Some 5) st0 = (Inr evs, sta)"
    by (auto simp add: events_response_def split: prod.splits sum.splits)
  with first obtain evs' where fmt: "format_events tz evs = (Inr out, evs')"
    and st1: "st1 = sta\<lparr>events_cache := (events_cache sta)
                 (Some 5 := map_option (\<lambda>x. x\<lparr>cached := evs'\<rparr>) (events_cache sta (Some 5)))\<rparr>"
    by (auto simp add: events_response_def split: prod.splits)
  from get_events_miss(2) [OF miss fetch]
  have entry: "events_cache st1 (Some 5) = Some \<lparr>cached = evs', storedtime = now1\<rparr>"
    by (simp add: st1)
  then have "live now2 (events_cache st1 (Some 5)) = Some evs'"
    using window by (simp add: live_fresh)
  then have hit: "get_events web cfg now2 (Some 5) st1 = (Inr evs', st1)"
    by (rule get_events_hit)
  have same: "st1\<lparr>events_cache := (events_cache st1)
                 (Some 5 := map_option (\<lambda>x. x\<lparr>cached := evs'\<rparr>) (events_cache st1 (Some 5)))\<rparr>
              = st1"
    by (simp add: entry fun_upd_idem)
  show ?thesis
    by (simp add: events_response_def hit format_events_again(1) [OF fmt] same)
qed

text \<open>
  C10: when \<^verbatim>\<open>_format_events\<close> returns a text for a list of events, it leaves the list with
  every integer time replaced by the string it rendered and nothing else changed, and
  applied to the list as it left it, it returns the same text and changes nothing more. So
  when a call of the handler's lines 110 and 111 misses the cache and returns a text, the
  same lines, run less than 600 later on the cached list, return the same text, with no
  request and no change of the state.
\<close>

theorem C10_format_events_idempotent:
  "(format_events tz events = (Inr out, events')
      \<longrightarrow> list_all2 (rendered tz) events events'
        \<and> format_events tz events' = (Inr out, events'))
   \<and> (live now1 (events_cache st0 (Some 5)) = None
      \<and> events_response web cfg tz now1 st0 = (Inr text1, st1)
      \<and> now1 \<le> now2 \<and> now2 < now1 + 600
      \<longrightarrow> events_response web cfg tz now2 st1 = (Inr text1, st1))"
  by (auto intro: format_events_again events_response_hit)

lemma format_time_meetup: "format_time (- 10800) 1700000000000 = Inr ''14/11 19:13''"
  by code_simp

lemma format_time_devfest: "format_time (- 10800) 1709164800000 = Inr ''28/02 21:00''"
  by code_simp

lemma format_events_example:
  "format_events (- 10800) example_events =
     (Inr (''[Meetup](http://meetup.com/e/1): 14/11 19:13'' @ [CHR 0x0A] @
           ''[Devfest](http://meetup.com/e/2): 28/02 21:00''),
      [\<lparr>name = ''Meetup'', link = ''http://meetup.com/e/1'', time = TStr ''14/11 19:13''\<rparr>,
       \<lparr>name = ''Devfest'', link = ''http://meetup.com/e/2'', time = TStr ''28/02 21:00''\<rparr>])"
  by (simp add: format_events_def format_event_def format_time_meetup format_time_devfest
      event_line_def example_events_def)

theorem C10_witness:
  "format_events (- 10800) example_events =
     (Inr (''[Meetup](http://meetup.com/e/1): 14/11 19:13'' @ [CHR 0x0A] @
           ''[Devfest](http://meetup.com/e/2): 28/02 21:00''),
      [\<lparr>name = ''Meetup'', link = ''http://meetup.com/e/1'', time = TStr ''14/11 19:13''\<rparr>,
       \<lparr>name = ''Devfest'', link = ''http://meetup.com/e/2'', time = TStr ''28/02 21:00''\<rparr>])
   \<and> format_events (- 10800)
      [\<lparr>name = ''Meetup'', link = ''http://meetup.com/e/1'', time = TStr ''14/11 19:13''\<rparr>,
       \<lparr>name = ''Devfest'', link = ''http://meetup.com/e/2'', time = TStr ''28/02 21:00''\<rparr>] =
     (Inr (''[Meetup](http://meetup.com/e/1): 14/11 19:13'' @ [CHR 0x0A] @
           ''[Devfest](http://meetup.com/e/2): 28/02 21:00''),
      [\<lparr>name = ''Meetup'', link = ''http://meetup.com/e/1'', time = TStr ''14/11 19:13''\<rparr>,
       \<lparr>name = ''Devfest'', link = ''http://meetup.com/e/2'', time = TStr ''28/02 21:00''\<rparr>])
   \<and> events_response example_web example_config (- 10800) 599
       (snd (events_response example_web example_config (- 10800) 0 init))
     = (Inr (''[Meetup](http://meetup.com/e/1): 14/11 19:13'' @ [CHR 0x0A] @
             ''[Devfest](http://meetup.com/e/2): 28/02 21:00''),
        snd (events_response example_web example_config (- 10800) 0 init))"
proof -
  let ?out = "''[Meetup](http://meetup.com/e/1): 14/11 19:13'' @ [CHR 0x0A] @
           ''[Devfest](http://meetup.com/e/2): 28/02 21:00''"
  let ?r1 = "events_response example_web example_config (- 10800) 0 init"
  have miss: "live 0 (events_cache init (Some 5)) = None"
    by (simp add: live_def init_def)
  have "fst ?r1 = Inr ?out"
    using get_events_example format_events_example
    by (auto simp add: events_response_def split: prod.splits sum.splits)
  then have first: "?r1 = (Inr ?out, snd ?r1)"
    by (metis prod.collapse)
  have window: "(0::real) \<le> 599 \<and> (599::real) < 0 + 600" by simp
  note both = C10_format_events_idempotent [where tz = "- 10800" and events = example_events
      and out = ?out and ?st0.0 = init and ?now1.0 = "0" and ?now2.0 = "599"
      and web = example_web and cfg = example_config and ?text1.0 = ?out
      and ?st1.0 = "snd ?r1"]
  from both format_events_example miss first window show ?thesis
    by (simp del: append.simps)
qed

end
